theory Spec2Isabelle
  imports Complex_Main "HOL-Library.Word" "HOL-Library.Multiset"
begin

unbundle bit_operations_syntax

section \<open>JavaScript values used by the recommendation routes\<close>

text \<open>
  A JavaScript number that is not finite is kept apart from the finite ones, which are
  modelled as reals. \<open>Number.isFinite\<close> is the test for the first constructor.
\<close>

datatype jsnumber = Finite real | NaN | PosInfinity | NegInfinity

text \<open>
  A string is the list of its code units under an injective encoding that writes an ASCII
  character as itself; the empty list is the empty string. \<open>String.prototype.toLowerCase\<close>
  and \<open>String.prototype.trim\<close> (Unicode case mapping, ECMAScript's white space) are a
  parameter: every function that calls them takes the two of them as an argument, and what
  is proved of it holds for every choice of the two, ECMAScript's included.
\<close>

record string_ops =
  toLowerCase :: "string \<Rightarrow> string"
  trim :: "string \<Rightarrow> string"

text \<open>The dedup key: \<open>String(title).toLowerCase().trim()\<close>.\<close>

definition normTitle :: "string_ops \<Rightarrow> string \<Rightarrow> string" where
  "normTitle js t = trim js (toLowerCase js t)"

text \<open>\<open>Array.prototype.join\<close>.\<close>

fun joinWith :: "string \<Rightarrow> string list \<Rightarrow> string" where
  "joinWith sep [] = []"
| "joinWith sep [x] = x"
| "joinWith sep (x # y # ys) = x @ sep @ joinWith sep (y # ys)"

text \<open>
  \<open>xs.slice(0, end)\<close> on a list: \<open>end\<close> is truncated towards zero
  (ToIntegerOrInfinity); a negative \<open>end\<close> counts from the end of the list.
\<close>

definition toIntegerOrInfinity :: "real \<Rightarrow> int" where
  "toIntegerOrInfinity x = (if x < 0 then \<lceil>x\<rceil> else \<lfloor>x\<rfloor>)"

definition slice0 :: "'a list \<Rightarrow> real \<Rightarrow> 'a list" where
  "slice0 xs e =
     (let len = int (length xs);
          rel = toIntegerOrInfinity e;
          final = (if rel < 0 then max (len + rel) 0 else min rel len)
      in take (nat final) xs)"

text \<open>
  The same with an \<open>end\<close> that need not be finite: \<open>NaN\<close> converts to 0,
  \<open>Infinity\<close> takes the whole list, \<open>-Infinity\<close> nothing.
\<close>

definition sliceTo :: "'a list \<Rightarrow> jsnumber \<Rightarrow> 'a list" where
  "sliceTo xs e =
     (case e of
        Finite x \<Rightarrow> slice0 xs x
      | NaN \<Rightarrow> slice0 xs 0
      | PosInfinity \<Rightarrow> xs
      | NegInfinity \<Rightarrow> [])"

subsection \<open>Arrays with JavaScript's out-of-range behaviour\<close>

text \<open>
  An array object: \<open>items\<close> are the properties \<open>0 .. length - 1\<close> (\<open>None\<close> is
  \<open>undefined\<close> or a hole), \<open>other\<close> the properties named by a negative integer,
  which are no elements. Reading outside the array gives \<open>undefined\<close>; writing at or past
  the length extends the array, leaving holes; writing at a negative integer sets a property
  and leaves the elements alone.
\<close>

record 'a jsarray =
  items :: "'a option list"
  other :: "int \<Rightarrow> 'a option"

definition fromList :: "'a list \<Rightarrow> 'a jsarray" where
  "fromList xs = \<lparr>items = map Some xs, other = (\<lambda>_. None)\<rparr>"

definition aget :: "'a jsarray \<Rightarrow> int \<Rightarrow> 'a option" where
  "aget a j =
     (if j < 0 then other a j
      else if j < int (length (items a)) then items a ! nat j
      else None)"

definition aset :: "'a jsarray \<Rightarrow> int \<Rightarrow> 'a option \<Rightarrow> 'a jsarray" where
  "aset a j v =
     (if j < 0 then a\<lparr>other := (other a)(j := v)\<rparr>
      else if j < int (length (items a)) then a\<lparr>items := (items a)[nat j := v]\<rparr>
      else a\<lparr>items := items a @ replicate (nat j - length (items a)) None @ [v]\<rparr>)"

section \<open>The shuffler (web-recommend route, step 6)\<close>

text \<open>
  The state of \<open>mulberry32\<close> is a JavaScript number holding an integer, and
  \<open>a += 0x6d2b79f5\<close> is an addition of doubles: exact while the sum is below \<open>2^53\<close>
  in magnitude, rounded to the nearest double (ties to the even significand) above.
  \<open>spacing m\<close> is the distance between neighbouring doubles at magnitude \<open>m\<close>, and
  \<open>roundToDouble n\<close> the double nearest to the integer \<open>n\<close>.
\<close>

fun spacing :: "nat \<Rightarrow> nat" where
  "spacing m = (if m < 2 ^ 53 then 1 else 2 * spacing (m div 2))"

declare spacing.simps [simp del]

definition roundToDouble :: "int \<Rightarrow> int" where
  "roundToDouble n =
     (let m = nat \<bar>n\<bar>;
          u = spacing m;
          q = m div u;
          r = m mod u;
          q' = (if 2 * r < u then q else if u < 2 * r then q + 1 else if even q then q else q + 1)
      in sgn n * int (q' * u))"

text \<open>
  \<open>mulberry32(a)\<close> returns a closure over the number \<open>a\<close>. One call of the closure is
  modelled as a function from the closure's state to the draw and the new state. The
  bitwise operators and \<open>Math.imul\<close> read the state modulo \<open>2^32\<close>, and \<open>>>> 0\<close> reads
  the result as unsigned.
\<close>

definition mulberry32 :: "int \<Rightarrow> real \<times> int" where
  "mulberry32 a =
     (let a' = roundToDouble (a + 0x6d2b79f5);
          t0 = (word_of_int a' :: 32 word);
          t1 = (t0 XOR drop_bit 15 t0) * (t0 OR 1);
          t2 = t1 XOR (t1 + (t1 XOR drop_bit 7 t1) * (t1 OR 61))
      in (real (unat (t2 XOR drop_bit 14 t2)) / 4294967296, a'))"

text \<open>
  \<open>Math.random\<close>: the environment's sequence of draws, read at a position that advances
  with every call.
\<close>

definition mathRandomAt :: "(nat \<Rightarrow> real) \<Rightarrow> nat \<Rightarrow> real \<times> nat" where
  "mathRandomAt draws n = (draws n, Suc n)"

text \<open>
  The loop \<open>for (let i = a.length - 1; i > 0; i--)\<close> of \<open>shuffleArray\<close>, at \<open>i = Suc n\<close>:
  \<open>j = Math.floor(rand() * (i + 1))\<close>, then the three assignments of the swap.
\<close>

fun shuffleLoop :: "('s \<Rightarrow> real \<times> 's) \<Rightarrow> nat \<Rightarrow> 'a jsarray \<Rightarrow> 's \<Rightarrow> 'a jsarray \<times> 's" where
  "shuffleLoop rand 0 a s = (a, s)"
| "shuffleLoop rand (Suc n) a s =
     (let i = int (Suc n);
          (r, s') = rand s;
          j = \<lfloor>r * (of_int i + 1)\<rfloor>;
          tmp = aget a i;
          a1 = aset a i (aget a j);
          a2 = aset a1 j tmp
      in shuffleLoop rand n a2 s')"

text \<open>
  \<open>shuffleArray(arr, rand)\<close>: \<open>arr.slice()\<close> of a dense array, the loop, and the copy as
  result (with the generator's state after the call). For the empty list \<open>a.length - 1\<close>
  is \<open>-1\<close> and the loop does not run, as for \<open>0\<close>.
\<close>

definition shuffleArray :: "'a list \<Rightarrow> ('s \<Rightarrow> real \<times> 's) \<Rightarrow> 's \<Rightarrow> 'a option list \<times> 's" where
  "shuffleArray arr rand s =
     (let a = fromList arr;
          (a', s') = shuffleLoop rand (length arr - 1) a s
      in (items a', s'))"

text \<open>
  The client's helper \<open>shuffle(arr)\<close> (ai-recommendations component) has the same body with
  \<open>Math.random()\<close> in the place of \<open>rand()\<close>.
\<close>

definition shuffle :: "'a list \<Rightarrow> (nat \<Rightarrow> real) \<Rightarrow> nat \<Rightarrow> 'a option list \<times> nat" where
  "shuffle arr draws n =
     (let a = fromList arr;
          (a', n') = shuffleLoop (mathRandomAt draws) (length arr - 1) a n
      in (items a', n'))"

text \<open>
  Seed handling of the route: \<open>numericSeed = seed != null ? Number(seed) : NaN\<close>; the
  request's \<open>seed\<close> is given here after \<open>Number(...)\<close>, so a finite one is a double.
  A finite seed selects
  \<open>mulberry32(Math.floor(numericSeed))\<close>, anything else \<open>Math.random\<close>.
\<close>

definition numericSeed :: "jsnumber option \<Rightarrow> jsnumber" where
  "numericSeed seed = (case seed of None \<Rightarrow> NaN | Some v \<Rightarrow> v)"

definition shuffled :: "jsnumber option \<Rightarrow> (nat \<Rightarrow> real) \<Rightarrow> 'a list \<Rightarrow> 'a option list" where
  "shuffled seed draws deduped =
     (case numericSeed seed of
        Finite x \<Rightarrow> fst (shuffleArray deduped mulberry32 \<lfloor>x\<rfloor>)
      | NaN \<Rightarrow> fst (shuffleArray deduped (mathRandomAt draws) 0)
      | PosInfinity \<Rightarrow> fst (shuffleArray deduped (mathRandomAt draws) 0)
      | NegInfinity \<Rightarrow> fst (shuffleArray deduped (mathRandomAt draws) 0))"

subsection \<open>The same functions on a store of array objects\<close>

text \<open>
  To speak about the caller's array after the call, arrays live in a store: a reference is
  a natural number, \<open>nextRef\<close> the first reference not yet allocated.
\<close>

record 'a heap =
  cells :: "nat \<Rightarrow> 'a jsarray"
  nextRef :: nat

text \<open>\<open>arr.slice()\<close>: a new array object with the elements of \<open>arr\<close>.\<close>

definition sliceH :: "nat \<Rightarrow> 'a heap \<Rightarrow> nat \<times> 'a heap" where
  "sliceH arr h =
     (let a = nextRef h
      in (a, h\<lparr>cells := (cells h)(a := \<lparr>items = items (cells h arr), other = (\<lambda>_. None)\<rparr>),
               nextRef := Suc a\<rparr>))"

definition writeH :: "nat \<Rightarrow> int \<Rightarrow> 'a option \<Rightarrow> 'a heap \<Rightarrow> 'a heap" where
  "writeH a j v h = h\<lparr>cells := (cells h)(a := aset (cells h a) j v)\<rparr>"

fun shuffleLoopH :: "('s \<Rightarrow> real \<times> 's) \<Rightarrow> nat \<Rightarrow> nat \<Rightarrow> 'a heap \<Rightarrow> 's \<Rightarrow> 'a heap \<times> 's" where
  "shuffleLoopH rand 0 a h s = (h, s)"
| "shuffleLoopH rand (Suc n) a h s =
     (let i = int (Suc n);
          (r, s') = rand s;
          j = \<lfloor>r * (of_int i + 1)\<rfloor>;
          tmp = aget (cells h a) i;
          h1 = writeH a i (aget (cells h a) j) h;
          h2 = writeH a j tmp h1
      in shuffleLoopH rand n a h2 s')"

definition shuffleArrayH :: "nat \<Rightarrow> ('s \<Rightarrow> real \<times> 's) \<Rightarrow> 's \<Rightarrow> 'a heap \<Rightarrow> (nat \<times> 's) \<times> 'a heap" where
  "shuffleArrayH arr rand s h =
     (let (a, h0) = sliceH arr h;
          (h', s') = shuffleLoopH rand (length (items (cells h0 a)) - 1) a h0 s
      in ((a, s'), h'))"

definition shuffleH :: "nat \<Rightarrow> (nat \<Rightarrow> real) \<Rightarrow> nat \<Rightarrow> 'a heap \<Rightarrow> (nat \<times> nat) \<times> 'a heap" where
  "shuffleH arr draws n h =
     (let (a, h0) = sliceH arr h;
          (h', n') = shuffleLoopH (mathRandomAt draws) (length (items (cells h0 a)) - 1) a h0 n
      in ((a, n'), h'))"

section \<open>The web-recommend route\<close>

subsection \<open>Data and environment\<close>

text \<open>
  The request bodies. \<open>topK\<close> is the field after the conversion to a number that both
  routes apply to it before use (\<open>Number(topK)\<close> in one, the conversion inside
  \<open>slice\<close> in the other); \<open>None\<close> is a field that is missing.
\<close>

record RecommendRequest =
  bookId :: "string option"
  topK :: "jsnumber option"

text \<open>\<open>seed\<close> is the request's seed after \<open>Number(seed)\<close>; \<open>None\<close> is a missing or null seed.\<close>

record WebRecommendRequest = RecommendRequest +
  seed :: "jsnumber option"

text \<open>A row of the \<open>books\<close> table, with the columns the routes read.\<close>

record book =
  b_id :: string
  b_title :: "string option"
  b_assignee :: "string option"
  b_notes :: "string option"

text \<open>The \<open>{data, error}\<close> pair of a database call: the error's message and the data.\<close>

type_synonym 'a dbresult = "string option \<times> 'a option"

text \<open>A document of Open Library's answer, and the candidate the route makes of it.\<close>

datatype author_name = AuthorNames "string list" | AuthorOther string | AuthorAbsent

record doc =
  d_title :: "string option"
  d_author_name :: author_name
  d_key :: "string option"

record candidate =
  title :: string
  author :: string
  key :: "string option"
  source :: string

text \<open>
  What one \<open>fetch\<close> of the search URL can do: reject (the network failed), answer with a
  status that is not ok, answer with a body that is not JSON, or answer with JSON whose
  \<open>docs\<close> is an array (\<open>Some\<close>) or not.
\<close>

datatype fetch_result =
  FetchRejected string | HttpNotOk | BodyNotJson | JsonBody "doc list option"

record web_env =
  bookById :: "string \<Rightarrow> book dbresult"
  allBookTitles :: "string option list dbresult"
  openLibrary :: "string \<Rightarrow> real \<Rightarrow> fetch_result"
  mathRandom :: "nat \<Rightarrow> real"

datatype 'a response = Status400 string | Status404 string | Status500 string | Ok200 "'a list"

subsection \<open>The steps of \<open>POST\<close>\<close>

text \<open>
  \<open>Math.max(1, Math.min(Number(topK) || 5, 50))\<close>, with \<open>topK = 5\<close> when it is missing:
  \<open>0\<close> and \<open>NaN\<close> are falsy and give 5; \<open>Math.min(Infinity, 50)\<close> is 50 and
  \<open>Math.max(1, -Infinity)\<close> is 1.
\<close>

definition requestedTopK :: "jsnumber option \<Rightarrow> real" where
  "requestedTopK tk =
     (case (case tk of None \<Rightarrow> Finite 5 | Some v \<Rightarrow> v) of
        Finite x \<Rightarrow> max 1 (min (if x = 0 then 5 else x) 50)
      | NaN \<Rightarrow> max 1 (min 5 50)
      | PosInfinity \<Rightarrow> max 1 50
      | NegInfinity \<Rightarrow> 1)"

definition fetchLimit :: "real \<Rightarrow> real" where
  "fetchLimit k = min (max (k * 6) 20) 100"

definition wideningLimit :: "real \<Rightarrow> real" where
  "wideningLimit k = min (fetchLimit k * 2) 200"

text \<open>
  JavaScript's truth test on a string that may be null or missing: the string itself when
  it is there and not empty, as a list of at most one element.
\<close>

definition truthy :: "string option \<Rightarrow> string list" where
  "truthy v = (case v of None \<Rightarrow> [] | Some s \<Rightarrow> if s = [] then [] else [s])"

text \<open>\<open>[title, assignee, notes].filter(Boolean).join(" ").trim()\<close>.\<close>

definition queryText :: "string_ops \<Rightarrow> book \<Rightarrow> string" where
  "queryText js b =
     trim js (joinWith '' '' (truthy (b_title b) @ truthy (b_assignee b) @ truthy (b_notes b)))"

definition localTitles :: "string_ops \<Rightarrow> string option list dbresult \<Rightarrow> string set" where
  "localTitles js res =
     (case res of
        (None, Some rows) \<Rightarrow> set (map (normTitle js) (concat (map truthy rows)))
      | (None, None) \<Rightarrow> {}
      | (Some e, _) \<Rightarrow> {})"

definition mapDoc :: "doc \<Rightarrow> candidate" where
  "mapDoc d =
     \<lparr>title = (case d_title d of None \<Rightarrow> [] | Some t \<Rightarrow> t),
      author = (case d_author_name d of
                  AuthorNames ns \<Rightarrow> joinWith '', '' ns
                | AuthorOther a \<Rightarrow> a
                | AuthorAbsent \<Rightarrow> ''Unknown''),
      key = d_key d,
      source = ''openlibrary''\<rparr>"

text \<open>
  \<open>queryOpenLibrary(q, limit)\<close>. A rejected \<open>fetch\<close> is an exception of the helper
  (\<open>Inl\<close>): nothing in the helper catches it.
\<close>

definition queryOpenLibrary ::
  "string_ops \<Rightarrow> (string \<Rightarrow> real \<Rightarrow> fetch_result) \<Rightarrow> string set \<Rightarrow> string \<Rightarrow> real
     \<Rightarrow> string + candidate list" where
  "queryOpenLibrary js ol lt q limit =
     (case ol q limit of
        FetchRejected e \<Rightarrow> Inl e
      | HttpNotOk \<Rightarrow> Inr []
      | BodyNotJson \<Rightarrow> Inr []
      | JsonBody ds \<Rightarrow>
          Inr (filter (\<lambda>d. title d \<noteq> [] \<and> normTitle js (title d) \<notin> lt)
                 (map mapDoc (case ds of None \<Rightarrow> [] | Some docs \<Rightarrow> docs))))"

text \<open>Step 4, the loop over \<open>titleOnlyDocs\<close>.\<close>

fun mergeLoop ::
  "string_ops \<Rightarrow> candidate list \<Rightarrow> string set \<Rightarrow> candidate list \<Rightarrow> candidate list" where
  "mergeLoop js [] seen recommendations = recommendations"
| "mergeLoop js (d # ds) seen recommendations =
     (if normTitle js (title d) \<in> seen then mergeLoop js ds seen recommendations
      else mergeLoop js ds (insert (normTitle js (title d)) seen) (recommendations @ [d]))"

text \<open>
  Steps 3 and 4: the primary search and, when it is short and the target has a title, the
  title-only search. The result carries the searches issued, in order, as (query, limit).
\<close>

definition collectCandidates ::
  "string_ops \<Rightarrow> (string \<Rightarrow> real \<Rightarrow> fetch_result) \<Rightarrow> string set \<Rightarrow> book \<Rightarrow> real
     \<Rightarrow> (string \<times> real) list \<times> (string + candidate list)" where
  "collectCandidates js ol lt targetBook k =
     (let primary = (queryText js targetBook, fetchLimit k)
      in case queryOpenLibrary js ol lt (fst primary) (snd primary) of
           Inl e \<Rightarrow> ([primary], Inl e)
         | Inr primaryDocs \<Rightarrow>
             (case truthy (b_title targetBook) of
                [] \<Rightarrow> ([primary], Inr primaryDocs)
              | t # _ \<Rightarrow>
                  if real (length primaryDocs) < min 2 k
                  then (case queryOpenLibrary js ol lt t (wideningLimit k) of
                          Inl e \<Rightarrow> ([primary, (t, wideningLimit k)], Inl e)
                        | Inr titleOnlyDocs \<Rightarrow>
                            ([primary, (t, wideningLimit k)],
                             Inr (mergeLoop js titleOnlyDocs
                                    (set (map (\<lambda>r. normTitle js (title r)) primaryDocs))
                                    primaryDocs)))
                  else ([primary], Inr primaryDocs)))"

text \<open>Step 5, the loop that fills \<open>deduped\<close>.\<close>

fun dedupLoop ::
  "string_ops \<Rightarrow> candidate list \<Rightarrow> string set \<Rightarrow> candidate list \<Rightarrow> candidate list" where
  "dedupLoop js [] normalizedSeen deduped = deduped"
| "dedupLoop js (d # ds) normalizedSeen deduped =
     (let t = normTitle js (title d)
      in if t = [] then dedupLoop js ds normalizedSeen deduped
         else if t \<in> normalizedSeen then dedupLoop js ds normalizedSeen deduped
         else dedupLoop js ds (insert t normalizedSeen) (deduped @ [d]))"

definition dedup :: "string_ops \<Rightarrow> candidate list \<Rightarrow> candidate list" where
  "dedup js recommendations = dedupLoop js recommendations {} []"

text \<open>
  The handler. The second component lists the searches sent to Open Library. An exception
  of a search reaches the handler's \<open>catch\<close>, which answers with status 500.
\<close>

definition POST_web_recommend ::
  "string_ops \<Rightarrow> web_env \<Rightarrow> WebRecommendRequest
     \<Rightarrow> candidate option response \<times> (string \<times> real) list" where
  "POST_web_recommend js env body =
     (let k = requestedTopK (topK body)
      in case truthy (bookId body) of
           [] \<Rightarrow> (Status400 ''Missing bookId'', [])
         | bid # _ \<Rightarrow>
             (case bookById env bid of
                (Some e, _) \<Rightarrow> (Status404 e, [])
              | (None, None) \<Rightarrow> (Status404 ''Book not found'', [])
              | (None, Some targetBook) \<Rightarrow>
                  if queryText js targetBook = [] then (Ok200 [], [])
                  else (case collectCandidates js (openLibrary env)
                               (localTitles js (allBookTitles env)) targetBook k of
                          (calls, Inl err) \<Rightarrow> (Status500 err, calls)
                        | (calls, Inr recommendations) \<Rightarrow>
                            (Ok200 (slice0 (shuffled (seed body) (mathRandom env)
                                              (dedup js recommendations)) k),
                             calls))))"

section \<open>The recommend route (local ranking)\<close>

text \<open>
  A row of \<open>book_ai\<close>; an embedding may be null, and so may its entries. An entry that is
  a number is any JavaScript number.
\<close>

record ai_row =
  book_id :: string
  embedding :: "jsnumber option list option"
  tags :: "string list option"
  summary :: "string option"

text \<open>A score is a JavaScript number: it can be \<open>NaN\<close> or infinite.\<close>

record scored_row =
  s_book_id :: string
  score :: jsnumber
  s_tags :: "string list"
  s_summary :: string

text \<open>
  An entry of the answer: with the book's row (or null) when the details were fetched, with
  the book's id when that fetch failed.
\<close>

datatype rank_item =
  WithBook jsnumber "string list" string "book option"
| WithId string jsnumber "string list" string

record rank_env =
  targetRow :: "string \<Rightarrow> ai_row dbresult"
  otherRows :: "string \<Rightarrow> ai_row list dbresult"
  booksByIds :: "string list \<Rightarrow> book list dbresult"

text \<open>
  The arithmetic of doubles (rounding, overflow, the values that are not finite) is a
  parameter: \<open>cosineSimilarity\<close> takes the four operations it uses, on JavaScript
  numbers, and what is proved of it holds for every such arithmetic, that of IEEE 754
  included.
\<close>

record float_ops =
  f_add :: "jsnumber \<Rightarrow> jsnumber \<Rightarrow> jsnumber"
  f_mul :: "jsnumber \<Rightarrow> jsnumber \<Rightarrow> jsnumber"
  f_div :: "jsnumber \<Rightarrow> jsnumber \<Rightarrow> jsnumber"
  f_sqrt :: "jsnumber \<Rightarrow> jsnumber"

definition EPSILON :: real where
  "EPSILON = 1 / 2 ^ 52"

text \<open>
  \<open>cosineSimilarity(a, b)\<close>: the loop over \<open>i < min(a.length, b.length)\<close> with
  \<open>a[i] ?? 0\<close> and \<open>b[i] ?? 0\<close>, then \<open>dot / (Math.sqrt(na) * Math.sqrt(nb) + EPSILON)\<close>.
\<close>

definition orZero :: "jsnumber option \<Rightarrow> jsnumber" where
  "orZero v = (case v of None \<Rightarrow> Finite 0 | Some x \<Rightarrow> x)"

definition cosineSimilarity :: "float_ops \<Rightarrow> jsnumber option list \<Rightarrow> jsnumber option list \<Rightarrow> jsnumber" where
  "cosineSimilarity fp a b =
     (let n = min (length a) (length b);
          (dot, na, nb) =
             foldl (\<lambda>(dot, na, nb) i.
                      (let va = orZero (a ! i); vb = orZero (b ! i)
                       in (f_add fp dot (f_mul fp va vb),
                           f_add fp na (f_mul fp va va),
                           f_add fp nb (f_mul fp vb vb))))
                   (Finite 0, Finite 0, Finite 0) [0..<n];
          denom = f_add fp (f_mul fp (f_sqrt fp na) (f_sqrt fp nb)) (Finite EPSILON)
      in f_div fp dot denom)"

text \<open>
  The comparator \<open>(a, b) => b.score - a.score\<close> as the sort reads it. The sort looks at
  the sign of the comparator's result only, and counts \<open>NaN\<close> as 0. The difference of two
  finite doubles has the sign of their exact difference (it is 0 only for equal operands,
  and an overflow keeps the sign); a difference with a \<open>NaN\<close> operand, or of two equal
  infinities, is \<open>NaN\<close>. \<open>signOfDifference x y\<close> is that reading of \<open>x - y\<close>.
\<close>

fun signOfDifference :: "jsnumber \<Rightarrow> jsnumber \<Rightarrow> int" where
  "signOfDifference (Finite x) (Finite y) = (if x < y then - 1 else if x = y then 0 else 1)"
| "signOfDifference NaN y = 0"
| "signOfDifference x NaN = 0"
| "signOfDifference PosInfinity PosInfinity = 0"
| "signOfDifference NegInfinity NegInfinity = 0"
| "signOfDifference PosInfinity y = 1"
| "signOfDifference x NegInfinity = 1"
| "signOfDifference NegInfinity y = - 1"
| "signOfDifference x PosInfinity = - 1"

text \<open>
  \<open>Array.prototype.sort(cmp)\<close> is the library's: since ECMAScript 2019 it is stable, and on
  a consistent comparator every stable sort returns the same array (on an inconsistent one
  the order is left to the implementation). It is modelled by insertion from the right,
  which puts an element before the first later element it does not come after; \<open>cmp\<close>
  gives the sign the sort reads.
\<close>

fun insertBy :: "('a \<Rightarrow> 'a \<Rightarrow> int) \<Rightarrow> 'a \<Rightarrow> 'a list \<Rightarrow> 'a list" where
  "insertBy cmp x [] = [x]"
| "insertBy cmp x (y # ys) = (if cmp x y \<le> 0 then x # y # ys else y # insertBy cmp x ys)"

definition arraySort :: "('a \<Rightarrow> 'a \<Rightarrow> int) \<Rightarrow> 'a list \<Rightarrow> 'a list" where
  "arraySort cmp xs = foldr (insertBy cmp) xs []"

definition validRows :: "ai_row list \<Rightarrow> ai_row list" where
  "validRows rows =
     filter (\<lambda>r. case embedding r of None \<Rightarrow> False | Some e \<Rightarrow> 0 < length e) rows"

definition scoreRow :: "float_ops \<Rightarrow> jsnumber option list \<Rightarrow> ai_row \<Rightarrow> scored_row" where
  "scoreRow fp targetEmbedding r =
     \<lparr>s_book_id = book_id r,
      score = cosineSimilarity fp targetEmbedding (case embedding r of None \<Rightarrow> [] | Some e \<Rightarrow> e),
      s_tags = (case tags r of None \<Rightarrow> [] | Some ts \<Rightarrow> ts),
      s_summary = (case summary r of None \<Rightarrow> [] | Some t \<Rightarrow> t)\<rparr>"

text \<open>\<open>validRows.map(...).sort((a, b) => b.score - a.score)\<close>: the ranker's output.\<close>

definition ranked :: "float_ops \<Rightarrow> jsnumber option list \<Rightarrow> ai_row list \<Rightarrow> scored_row list" where
  "ranked fp targetEmbedding rows =
     arraySort (\<lambda>a b. signOfDifference (score b) (score a))
       (map (scoreRow fp targetEmbedding) (validRows rows))"

text \<open>\<open>.slice(0, topK)\<close> with the request's \<open>topK\<close> as it came (5 when missing).\<close>

definition scored ::
  "float_ops \<Rightarrow> jsnumber option list \<Rightarrow> ai_row list \<Rightarrow> jsnumber option \<Rightarrow> scored_row list" where
  "scored fp targetEmbedding rows tk =
     sliceTo (ranked fp targetEmbedding rows) (case tk of None \<Rightarrow> Finite 5 | Some v \<Rightarrow> v)"

definition POST_recommend ::
  "float_ops \<Rightarrow> rank_env \<Rightarrow> RecommendRequest \<Rightarrow> rank_item response" where
  "POST_recommend fp env body =
     (case truthy (bookId body) of
        [] \<Rightarrow> Status400 ''Missing bookId''
      | bid # _ \<Rightarrow>
          (case targetRow env bid of
             (Some e, _) \<Rightarrow> Status404 e
           | (None, None) \<Rightarrow> Status404 ''No AI data found for target book''
           | (None, Some target) \<Rightarrow>
               (case embedding target of
                  None \<Rightarrow> Status404 ''Target embedding not available''
                | Some targetEmbedding \<Rightarrow>
                    (case otherRows env bid of
                       (Some e, _) \<Rightarrow> Status500 e
                     | (None, aiRows) \<Rightarrow>
                         (let rows = (case aiRows of None \<Rightarrow> [] | Some rs \<Rightarrow> rs);
                              sc = scored fp targetEmbedding rows (topK body)
                          in if sc = [] then Ok200 []
                             else (case booksByIds env (map s_book_id sc) of
                                     (Some e, _) \<Rightarrow>
                                       Ok200 (map (\<lambda>s. WithId (s_book_id s) (score s) (s_tags s)
                                                          (s_summary s)) sc)
                                   | (None, booksData) \<Rightarrow>
                                       (let books = (case booksData of None \<Rightarrow> [] | Some bs \<Rightarrow> bs)
                                        in Ok200 (map (\<lambda>s. WithBook (score s) (s_tags s) (s_summary s)
                                                          (find (\<lambda>b. b_id b = s_book_id s) books))
                                                    sc))))))))"

section \<open>The client component: \<open>fetchWebRecommendations\<close>\<close>

text \<open>
  \<open>BookBrief\<close> and \<open>Recommendation\<close> as the component declares them (of a book only the
  id and the title are kept: the function below never reads a book).
\<close>

record BookBrief =
  bb_id :: string
  bb_title :: string

record Recommendation =
  r_score :: "real option"
  r_tags :: "string list option"
  r_summary :: "string option"
  r_book :: "BookBrief option"
  r_title :: "string option"
  r_author :: "string option"
  r_source :: "string option"

text \<open>An entry of the route's \<open>recommendations\<close> as the client reads it.\<close>

record web_item =
  w_title :: "string option"
  w_author :: "string option"
  w_source :: "string option"
  w_summary :: "string option"

record Props =
  p_bookId :: string
  p_topK :: "real option"

text \<open>The component's state.\<close>

record ui_state =
  recs :: "Recommendation list option"
  loading :: bool
  regenLoading :: bool
  error :: "string option"
  onlyWeb :: bool

text \<open>
  The route's answer as \<open>fetch\<close> gives it: rejected, or \<open>res.ok\<close> with the body's
  \<open>error\<close> and \<open>recommendations\<close> (both missing when the body is not JSON).
\<close>

datatype api_result = ApiRejected string | ApiResponse bool "string option" "web_item list option"

record client_env =
  webRecommendApi :: "string \<Rightarrow> real \<Rightarrow> jsnumber option \<Rightarrow> api_result"
  clientRandom :: "nat \<Rightarrow> real"

definition MAX_WEB_RECS :: nat where
  "MAX_WEB_RECS = 3"

definition mapItem :: "web_item \<Rightarrow> Recommendation" where
  "mapItem r =
     \<lparr>r_score = None, r_tags = None,
      r_summary = (case truthy (w_author r) of
                     [] \<Rightarrow> w_summary r
                   | a # _ \<Rightarrow> Some (''Author: '' @ a)),
      r_book = None, r_title = w_title r, r_author = w_author r, r_source = w_source r\<rparr>"

text \<open>
  \<open>currentTitles\<close>: the given set when it is not empty, and the normalized titles of the
  displayed recommendations otherwise.
\<close>

definition displayedTitles :: "string_ops \<Rightarrow> Recommendation list option \<Rightarrow> string set" where
  "displayedTitles js rs =
     set (map (normTitle js)
            (concat (map (\<lambda>r. truthy (r_title r)) (case rs of None \<Rightarrow> [] | Some xs \<Rightarrow> xs))))"

definition currentTitles :: "string_ops \<Rightarrow> string set option \<Rightarrow> Recommendation list option \<Rightarrow> string set" where
  "currentTitles js excludeTitles rs =
     (case excludeTitles of
        None \<Rightarrow> displayedTitles js rs
      | Some ex \<Rightarrow> if ex = {} then displayedTitles js rs else ex)"

text \<open>
  The head of both loops: \<open>if (!candidate?.title) continue; t = ...; if (!t) continue\<close>.
  The result is the candidate with its key, when the loop goes on with it.
\<close>

definition usable :: "string_ops \<Rightarrow> Recommendation option \<Rightarrow> (Recommendation \<times> string) option" where
  "usable js candidate =
     (case candidate of
        None \<Rightarrow> None
      | Some c \<Rightarrow>
          (case truthy (r_title c) of
             [] \<Rightarrow> None
           | ti # _ \<Rightarrow> if normTitle js ti = [] then None else Some (c, normTitle js ti)))"

text \<open>The first loop (strict): skips titles already chosen and titles in \<open>currentTitles\<close>.\<close>

fun strictPass ::
  "string_ops \<Rightarrow> string set \<Rightarrow> Recommendation option list \<Rightarrow> Recommendation list \<Rightarrow> string set
     \<Rightarrow> Recommendation list \<times> string set" where
  "strictPass js cur [] chosen seen = (chosen, seen)"
| "strictPass js cur (candidate # rest) chosen seen =
     (case usable js candidate of
        None \<Rightarrow> strictPass js cur rest chosen seen
      | Some (c, t) \<Rightarrow>
          if t \<in> seen then strictPass js cur rest chosen seen
          else if t \<in> cur then strictPass js cur rest chosen seen
          else if MAX_WEB_RECS \<le> length (chosen @ [c]) then (chosen @ [c], insert t seen)
          else strictPass js cur rest (chosen @ [c]) (insert t seen))"

text \<open>The second loop (relaxed): skips only titles already chosen.\<close>

fun relaxedPass ::
  "string_ops \<Rightarrow> Recommendation option list \<Rightarrow> Recommendation list \<Rightarrow> string set
     \<Rightarrow> Recommendation list \<times> string set" where
  "relaxedPass js [] chosen seen = (chosen, seen)"
| "relaxedPass js (candidate # rest) chosen seen =
     (case usable js candidate of
        None \<Rightarrow> relaxedPass js rest chosen seen
      | Some (c, t) \<Rightarrow>
          if t \<in> seen then relaxedPass js rest chosen seen
          else if MAX_WEB_RECS \<le> length (chosen @ [c]) then (chosen @ [c], insert t seen)
          else relaxedPass js rest (chosen @ [c]) (insert t seen))"

text \<open>
  The fallback: when nothing was chosen and \<open>recs\<close> is a non-empty array, its first element
  moves to the end and the first \<open>MAX_WEB_RECS\<close> of the rotated list are pushed.
\<close>

definition rotateFallback :: "Recommendation list \<Rightarrow> Recommendation list option \<Rightarrow> Recommendation list" where
  "rotateFallback chosen rs =
     (if chosen = []
      then (case rs of
              None \<Rightarrow> chosen
            | Some [] \<Rightarrow> chosen
            | Some (first # rotated) \<Rightarrow> chosen @ take MAX_WEB_RECS (rotated @ [first]))
      else chosen)"

text \<open>The three passes on the shuffled pool, and the final \<open>slice(0, MAX_WEB_RECS)\<close>.\<close>

definition chooseRecs ::
  "string_ops \<Rightarrow> string set \<Rightarrow> Recommendation option list \<Rightarrow> Recommendation list option \<Rightarrow> Recommendation list" where
  "chooseRecs js cur pool rs =
     (let (chosen1, seen1) = strictPass js cur pool [] {};
          chosen2 = (if length chosen1 < MAX_WEB_RECS then fst (relaxedPass js pool chosen1 seen1)
                     else chosen1);
          chosen3 = rotateFallback chosen2 rs
      in take MAX_WEB_RECS chosen3)"

text \<open>
  \<open>fetchWebRecommendations(excludeTitles, seed)\<close>: the state after the call, from the
  component's props and its state before. The request asks the route for
  \<open>Math.min(FETCH_LIMIT, 50)\<close> items.
\<close>

definition fetchWebRecommendations ::
  "string_ops \<Rightarrow> client_env \<Rightarrow> Props \<Rightarrow> ui_state \<Rightarrow> string set option \<Rightarrow> jsnumber option \<Rightarrow> ui_state" where
  "fetchWebRecommendations js env props st excludeTitles sd =
     (let FETCH_LIMIT = max 12 ((case p_topK props of None \<Rightarrow> 5 | Some v \<Rightarrow> v) * 6)
      in case webRecommendApi env (p_bookId props) (min FETCH_LIMIT 50) sd of
           ApiRejected msg \<Rightarrow> st\<lparr>recs := Some [], loading := False, error := Some msg\<rparr>
         | ApiResponse ok err list \<Rightarrow>
             if ok
             then (let mapped = map mapItem (case list of None \<Rightarrow> [] | Some xs \<Rightarrow> xs);
                       pool = fst (shuffle mapped (clientRandom env) 0);
                       finalRecs = chooseRecs js (currentTitles js excludeTitles (recs st)) pool (recs st)
                   in st\<lparr>recs := Some finalRecs, loading := False, error := None, onlyWeb := True\<rparr>)
             else st\<lparr>recs := Some [], loading := False,
                      error := Some (case truthy err of
                                       [] \<Rightarrow> ''Failed to fetch web recommendations''
                                     | m # _ \<Rightarrow> m)\<rparr>)"

section \<open>Notions used in the statements\<close>

text \<open>
  Position \<open>i\<close> of a candidate list is first-seen when its key is not empty and no earlier
  position has the same key.
\<close>

definition firstSeen :: "string_ops \<Rightarrow> candidate list \<Rightarrow> nat \<Rightarrow> bool" where
  "firstSeen js xs i =
     (normTitle js (title (xs ! i)) \<noteq> []
      \<and> (\<forall>j < i. normTitle js (title (xs ! j)) \<noteq> normTitle js (title (xs ! i))))"

text \<open>
  The key of a recommendation, and the keys of the candidates of a pool that the two loops
  of the client do not skip at their head.
\<close>

definition recKey :: "string_ops \<Rightarrow> Recommendation \<Rightarrow> string" where
  "recKey js r = normTitle js (case r_title r of None \<Rightarrow> [] | Some t \<Rightarrow> t)"

definition poolKeys :: "string_ops \<Rightarrow> Recommendation option list \<Rightarrow> string set" where
  "poolKeys js pool = set (map snd (List.map_filter (usable js) pool))"

text \<open>
  \<open>x <= y\<close> on JavaScript numbers: false when an operand is \<open>NaN\<close>.
\<close>

fun scoreLe :: "jsnumber \<Rightarrow> jsnumber \<Rightarrow> bool" where
  "scoreLe (Finite x) (Finite y) = (x \<le> y)"
| "scoreLe NaN y = False"
| "scoreLe x NaN = False"
| "scoreLe NegInfinity y = True"
| "scoreLe x PosInfinity = True"
| "scoreLe PosInfinity y = False"
| "scoreLe x NegInfinity = False"

section \<open>Example inputs\<close>

text \<open>
  String operations for the examples, whose strings are ASCII: \<open>A..Z\<close> go to \<open>a..z\<close>, and
  TAB, LF, VT, FF, CR and SP are trimmed. On ASCII strings this is what
  \<open>String.prototype.toLowerCase\<close> and \<open>String.prototype.trim\<close> do.
\<close>

definition asciiToLowerChar :: "char \<Rightarrow> char" where
  "asciiToLowerChar c =
     (case map_of (zip ''ABCDEFGHIJKLMNOPQRSTUVWXYZ'' ''abcdefghijklmnopqrstuvwxyz'') c of
        None \<Rightarrow> c
      | Some l \<Rightarrow> l)"

definition asciiToLowerCase :: "string \<Rightarrow> string" where
  "asciiToLowerCase s = map asciiToLowerChar s"

definition isAsciiWhiteSpace :: "char \<Rightarrow> bool" where
  "isAsciiWhiteSpace c = ((of_char c :: nat) \<in> {9, 10, 11, 12, 13, 32})"

definition asciiTrim :: "string \<Rightarrow> string" where
  "asciiTrim s = rev (dropWhile isAsciiWhiteSpace (rev (dropWhile isAsciiWhiteSpace s)))"

definition asciiOps :: string_ops where
  "asciiOps = \<lparr>toLowerCase = asciiToLowerCase, trim = asciiTrim\<rparr>"


text \<open>
  A target book whose primary search finds one candidate and whose title-only search finds
  that candidate again, three new titles and a title that is already local.
\<close>

definition exampleBook :: book where
  "exampleBook = \<lparr>b_id = ''b1'', b_title = Some ''Dune'', b_assignee = Some ''Frank'', b_notes = None\<rparr>"

definition exampleDoc :: "string \<Rightarrow> doc" where
  "exampleDoc t = \<lparr>d_title = Some t, d_author_name = AuthorAbsent, d_key = None\<rparr>"

definition exampleCandidate :: "string \<Rightarrow> candidate" where
  "exampleCandidate t = \<lparr>title = t, author = ''Unknown'', key = None, source = ''openlibrary''\<rparr>"

definition exampleSearch :: "string \<Rightarrow> real \<Rightarrow> fetch_result" where
  "exampleSearch q limit =
     (if q = ''Dune Frank'' then JsonBody (Some [exampleDoc ''Dune Messiah''])
      else JsonBody (Some [exampleDoc ''dune messiah '', exampleDoc ''Children of Dune'',
                           exampleDoc ''Emma'', exampleDoc ''Dune'', exampleDoc ''Ulysses'']))"

definition exampleEnv :: web_env where
  "exampleEnv =
     \<lparr>bookById = (\<lambda>_. (None, Some exampleBook)),
      allBookTitles = (None, Some [Some ''Dune'']),
      openLibrary = exampleSearch,
      mathRandom = (\<lambda>_. 0)\<rparr>"

definition exampleRequest :: "real \<Rightarrow> WebRecommendRequest" where
  "exampleRequest k = \<lparr>bookId = Some ''b1'', topK = Some (Finite k), seed = Some (Finite 12345)\<rparr>"

text \<open>
  The same environment when the primary search finds one document whose title is white space
  only, and the title-only search three titles that are new.
\<close>

definition exampleBlankSearch :: "string \<Rightarrow> real \<Rightarrow> fetch_result" where
  "exampleBlankSearch q limit =
     (if q = ''Dune Frank'' then JsonBody (Some [exampleDoc ''  ''])
      else JsonBody (Some [exampleDoc ''Children of Dune'', exampleDoc ''Emma'',
                           exampleDoc ''Ulysses'']))"

definition exampleBlankEnv :: web_env where
  "exampleBlankEnv = exampleEnv\<lparr>openLibrary := exampleBlankSearch\<rparr>"

text \<open>The same environment with a network that fails, always or only for the title-only search.\<close>

definition exampleOffline :: web_env where
  "exampleOffline = exampleEnv\<lparr>openLibrary := (\<lambda>q limit. FetchRejected ''TypeError: fetch failed'')\<rparr>"

definition exampleWideningOffline :: web_env where
  "exampleWideningOffline =
     exampleEnv\<lparr>openLibrary :=
       (\<lambda>q limit. if q = ''Dune Frank'' then JsonBody (Some [exampleDoc ''Dune Messiah''])
                  else FetchRejected ''TypeError: fetch failed'')\<rparr>"

text \<open>The entries of an answer with status 200 (none for the other answers).\<close>

definition responseItems :: "'a response \<Rightarrow> 'a list" where
  "responseItems r = (case r of Ok200 xs \<Rightarrow> xs | Status400 e \<Rightarrow> [] | Status404 e \<Rightarrow> [] | Status500 e \<Rightarrow> [])"

text \<open>
  An arithmetic for the examples: the operations of doubles without the rounding of finite
  results. A result of magnitude \<open>2^1024\<close> or more overflows to an infinity, and the values
  that are not finite follow IEEE 754 (the sign of a zero is not kept, a division of a
  number other than 0 by 0 gives the infinity of the number's sign).
\<close>

definition overflow :: "real \<Rightarrow> jsnumber" where
  "overflow x =
     (if 2 ^ 1024 \<le> x then PosInfinity else if x \<le> - (2 ^ 1024) then NegInfinity else Finite x)"

definition signedInfinity :: "bool \<Rightarrow> jsnumber" where
  "signedInfinity positive = (if positive then PosInfinity else NegInfinity)"

fun idealAdd :: "jsnumber \<Rightarrow> jsnumber \<Rightarrow> jsnumber" where
  "idealAdd (Finite x) (Finite y) = overflow (x + y)"
| "idealAdd NaN y = NaN"
| "idealAdd x NaN = NaN"
| "idealAdd PosInfinity NegInfinity = NaN"
| "idealAdd NegInfinity PosInfinity = NaN"
| "idealAdd PosInfinity y = PosInfinity"
| "idealAdd x PosInfinity = PosInfinity"
| "idealAdd NegInfinity y = NegInfinity"
| "idealAdd x NegInfinity = NegInfinity"

fun idealMul :: "jsnumber \<Rightarrow> jsnumber \<Rightarrow> jsnumber" where
  "idealMul (Finite x) (Finite y) = overflow (x * y)"
| "idealMul NaN y = NaN"
| "idealMul x NaN = NaN"
| "idealMul (Finite x) PosInfinity = (if x = 0 then NaN else signedInfinity (0 < x))"
| "idealMul (Finite x) NegInfinity = (if x = 0 then NaN else signedInfinity (x < 0))"
| "idealMul PosInfinity (Finite y) = (if y = 0 then NaN else signedInfinity (0 < y))"
| "idealMul NegInfinity (Finite y) = (if y = 0 then NaN else signedInfinity (y < 0))"
| "idealMul PosInfinity PosInfinity = PosInfinity"
| "idealMul PosInfinity NegInfinity = NegInfinity"
| "idealMul NegInfinity PosInfinity = NegInfinity"
| "idealMul NegInfinity NegInfinity = PosInfinity"

fun idealDiv :: "jsnumber \<Rightarrow> jsnumber \<Rightarrow> jsnumber" where
  "idealDiv (Finite x) (Finite y) =
     (if y = 0 then (if x = 0 then NaN else signedInfinity (0 < x)) else overflow (x / y))"
| "idealDiv NaN y = NaN"
| "idealDiv x NaN = NaN"
| "idealDiv (Finite x) PosInfinity = Finite 0"
| "idealDiv (Finite x) NegInfinity = Finite 0"
| "idealDiv PosInfinity (Finite y) = signedInfinity (0 \<le> y)"
| "idealDiv NegInfinity (Finite y) = signedInfinity (y < 0)"
| "idealDiv PosInfinity PosInfinity = NaN"
| "idealDiv PosInfinity NegInfinity = NaN"
| "idealDiv NegInfinity PosInfinity = NaN"
| "idealDiv NegInfinity NegInfinity = NaN"

fun idealSqrt :: "jsnumber \<Rightarrow> jsnumber" where
  "idealSqrt (Finite x) = (if x < 0 then NaN else Finite (sqrt x))"
| "idealSqrt NaN = NaN"
| "idealSqrt PosInfinity = PosInfinity"
| "idealSqrt NegInfinity = NaN"

definition idealOps :: float_ops where
  "idealOps = \<lparr>f_add = idealAdd, f_mul = idealMul, f_div = idealDiv, f_sqrt = idealSqrt\<rparr>"

text \<open>
  Embedding entries for the examples. The product of \<open>hugeEntry\<close> with 2, and its square,
  overflow. With \<open>smallEntry\<close> and \<open>tinyEntry\<close> the examples are chosen so that every
  finite intermediate result is a power of 2 or 0, hence a double: on them the unrounded
  arithmetic computes what doubles compute.
\<close>

definition hugeEntry :: real where
  "hugeEntry = 2 ^ 1023"

definition smallEntry :: real where
  "smallEntry = 1 / 2 ^ 26"

definition tinyEntry :: real where
  "tinyEntry = 1 / 2 ^ 53"

text \<open>A \<open>book_ai\<close> table with a target and \<open>n\<close> other rows, all with an embedding.\<close>

definition exampleRow :: "string \<Rightarrow> jsnumber option list \<Rightarrow> ai_row" where
  "exampleRow i e = \<lparr>book_id = i, embedding = Some e, tags = None, summary = None\<rparr>"

definition exampleRankEnv :: "nat \<Rightarrow> rank_env" where
  "exampleRankEnv n =
     \<lparr>targetRow = (\<lambda>_. (None, Some (exampleRow ''b1'' [Some (Finite 1)]))),
      otherRows = (\<lambda>_. (None, Some (replicate n (exampleRow ''b2'' [Some (Finite 1)])))),
      booksByIds = (\<lambda>_. (None, Some []))\<rparr>"

text \<open>
  A client whose route answers with two titles, both of them displayed already, and a
  component that asks for one recommendation.
\<close>

definition exampleItem :: "string \<Rightarrow> web_item" where
  "exampleItem t = \<lparr>w_title = Some t, w_author = None, w_source = Some ''openlibrary'', w_summary = None\<rparr>"

definition exampleClient :: client_env where
  "exampleClient =
     \<lparr>webRecommendApi = (\<lambda>b k sd. ApiResponse True None (Some [exampleItem ''Dune'', exampleItem ''Emma''])),
      clientRandom = (\<lambda>_. 0)\<rparr>"

definition exampleProps :: Props where
  "exampleProps = \<lparr>p_bookId = ''b1'', p_topK = Some 1\<rparr>"

definition exampleState :: "Recommendation list option \<Rightarrow> ui_state" where
  "exampleState rs = \<lparr>recs = rs, loading = False, regenLoading = False, error = None, onlyWeb = True\<rparr>"

text \<open>A client whose route answers with no recommendation.\<close>

definition exampleEmptyClient :: client_env where
  "exampleEmptyClient = exampleClient\<lparr>webRecommendApi := (\<lambda>b k sd. ApiResponse True None (Some []))\<rparr>"

section \<open>Properties\<close>

subsection \<open>The shuffle: range of the draws, permutation, frame\<close>

lemma mulberry32_range: "0 \<le> fst (mulberry32 a) \<and> fst (mulberry32 a) < 1"
proof -
  obtain w :: "32 word" where w: "fst (mulberry32 a) = real (unat w) / 4294967296"
    by (simp add: mulberry32_def Let_def)
  define n where "n = unat w"
  have "n < 2 ^ LENGTH(32)"
    unfolding n_def by (rule unsigned_less)
  then have n: "real n < 4294967296" by simp
  have "fst (mulberry32 a) = real n / 4294967296"
    unfolding n_def by (rule w)
  then show ?thesis using n by simp
qed

lemma mulberry32_state: "snd (mulberry32 a) = roundToDouble (a + 0x6d2b79f5)"
  by (simp add: mulberry32_def Let_def)

lemma spacing_below_2_53: "m < 2 ^ 53 \<Longrightarrow> spacing m = 1"
  by (simp add: spacing.simps)

lemma roundToDouble_exact:
  assumes "\<bar>n\<bar> < 2 ^ 53"
  shows "roundToDouble n = n"
proof -
  have "nat \<bar>n\<bar> < 2 ^ 53" using assms by (simp add: nat_less_iff)
  then have "spacing (nat \<bar>n\<bar>) = 1" by (rule spacing_below_2_53)
  then show ?thesis by (simp add: roundToDouble_def Let_def sgn_mult_abs)
qed

lemma mulberry32_state_exact:
  "\<bar>a + 0x6d2b79f5\<bar> < 2 ^ 53 \<Longrightarrow> snd (mulberry32 a) = a + 0x6d2b79f5"
  by (simp add: mulberry32_state roundToDouble_exact)

lemma mathRandomAt_range:
  "\<forall>n. 0 \<le> draws n \<and> draws n < 1 \<Longrightarrow> 0 \<le> fst (mathRandomAt draws n) \<and> fst (mathRandomAt draws n) < 1"
  by (simp add: mathRandomAt_def)

lemma draw_index_range:
  fixes r :: real
  assumes "0 \<le> r" "r < 1"
  shows "0 \<le> \<lfloor>r * (of_int (int (Suc n)) + 1)\<rfloor> \<and> \<lfloor>r * (of_int (int (Suc n)) + 1)\<rfloor> \<le> int (Suc n)"
proof -
  have pos: "0 < (of_int (int (Suc n)) + 1 :: real)" by simp
  have "0 \<le> r * (of_int (int (Suc n)) + 1)" using assms(1) pos by simp
  then have lo: "0 \<le> \<lfloor>r * (of_int (int (Suc n)) + 1)\<rfloor>" by simp
  have "r * (of_int (int (Suc n)) + 1) < 1 * (of_int (int (Suc n)) + 1)"
    using assms(2) pos by (rule mult_strict_right_mono)
  then have "r * (of_int (int (Suc n)) + 1) < of_int (int (Suc n) + 1)" by simp
  then have "\<lfloor>r * (of_int (int (Suc n)) + 1)\<rfloor> < int (Suc n) + 1"
    by (simp only: floor_less_iff)
  then show ?thesis using lo by simp
qed

lemma swap_in_range:
  assumes "0 \<le> j" "j \<le> i" "i < int (length (items a))"
  shows "aset (aset a i (aget a j)) j (aget a i)
         = a\<lparr>items := (items a)[nat i := items a ! nat j, nat j := items a ! nat i]\<rparr>"
  using assms by (simp add: aset_def aget_def)

lemma shuffleLoop_mset:
  assumes ok: "\<forall>s. 0 \<le> fst (rand s) \<and> fst (rand s) < 1"
  shows "n < length (items a) \<Longrightarrow>
         mset (items (fst (shuffleLoop rand n a s))) = mset (items a)"
proof (induction n arbitrary: a s)
  case 0
  then show ?case by simp
next
  case (Suc n)
  obtain r s' where rs: "rand s = (r, s')" by (cases "rand s")
  have r: "0 \<le> r" "r < 1" using ok [rule_format, of s] rs by simp_all
  define j where "j = \<lfloor>r * (of_int (int (Suc n)) + 1)\<rfloor>"
  have j: "0 \<le> j" "j \<le> int (Suc n)"
    using draw_index_range [OF r, of n] by (simp_all add: j_def)
  have i: "int (Suc n) < int (length (items a))" using Suc.prems by simp
  define a2 where "a2 = aset (aset a (int (Suc n)) (aget a j)) j (aget a (int (Suc n)))"
  have a2: "a2 = a\<lparr>items := (items a)[nat (int (Suc n)) := items a ! nat j, nat j := items a ! nat (int (Suc n))]\<rparr>"
    unfolding a2_def using swap_in_range [OF j i] .
  have len: "length (items a2) = length (items a)" by (simp add: a2)
  have "nat j < length (items a)" using j i by linarith
  then have ms: "mset (items a2) = mset (items a)"
    using Suc.prems by (simp add: a2 mset_swap)
  have step: "shuffleLoop rand (Suc n) a s = shuffleLoop rand n a2 s'"
    by (simp add: rs Let_def a2_def j_def)
  have "n < length (items a2)" using Suc.prems len by simp
  then have "mset (items (fst (shuffleLoop rand n a2 s'))) = mset (items a2)"
    by (rule Suc.IH)
  then show ?case by (simp only: step ms)
qed

lemma shuffleArray_mset:
  assumes ok: "\<forall>s. 0 \<le> fst (rand s) \<and> fst (rand s) < 1"
  shows "mset (fst (shuffleArray arr rand s)) = mset (map Some arr)"
proof (cases arr)
  case Nil
  then show ?thesis by (simp add: shuffleArray_def fromList_def)
next
  case (Cons x xs)
  then have "length arr - 1 < length (items (fromList arr))" by (simp add: fromList_def)
  from shuffleLoop_mset [OF ok this, of s] show ?thesis
    by (simp add: shuffleArray_def Let_def split_beta fromList_def)
qed

lemma shuffleLoop_mulberry32_state:
  "snd (shuffleLoop mulberry32 n a s) = ((\<lambda>s. roundToDouble (s + 0x6d2b79f5)) ^^ n) s"
proof (induction n arbitrary: a s)
  case 0
  then show ?case by simp
next
  case (Suc n)
  obtain r s' where rs: "mulberry32 s = (r, s')" by (cases "mulberry32 s")
  then have "s' = roundToDouble (s + 0x6d2b79f5)" using mulberry32_state [of s] by simp
  then show ?case by (simp add: rs Let_def Suc.IH funpow_Suc_right del: funpow.simps)
qed

lemma state_exact:
  "\<bar>s\<bar> + int n * 0x6d2b79f5 < 2 ^ 53
   \<Longrightarrow> ((\<lambda>s. roundToDouble (s + 0x6d2b79f5)) ^^ n) s = s + int n * 0x6d2b79f5"
proof (induction n arbitrary: s)
  case 0
  then show ?case by simp
next
  case (Suc n)
  define f where "f = (\<lambda>s. roundToDouble (s + 0x6d2b79f5))"
  have b: "\<bar>s + 0x6d2b79f5\<bar> < 2 ^ 53" using Suc.prems by simp
  then have "roundToDouble (s + 0x6d2b79f5) = s + 0x6d2b79f5" by (rule roundToDouble_exact)
  then have r: "f s = s + 0x6d2b79f5" by (simp add: f_def)
  have "\<bar>s + 0x6d2b79f5\<bar> + int n * 0x6d2b79f5 < 2 ^ 53" using Suc.prems by simp
  from Suc.IH [OF this]
  have ih: "(f ^^ n) (s + 0x6d2b79f5) = s + 0x6d2b79f5 + int n * 0x6d2b79f5"
    by (simp only: f_def)
  have "(f ^^ Suc n) s = (f ^^ n) (f s)"
    by (simp add: funpow_Suc_right del: funpow.simps)
  also have "\<dots> = s + 0x6d2b79f5 + int n * 0x6d2b79f5" by (simp only: r ih)
  also have "\<dots> = s + int (Suc n) * 0x6d2b79f5" by (simp add: algebra_simps)
  finally show ?case by (simp only: f_def)
qed


lemma writeH_frame: "p \<noteq> a \<Longrightarrow> cells (writeH a j v h) p = cells h p"
  by (simp add: writeH_def)

lemma shuffleLoopH_frame:
  "p \<noteq> a \<Longrightarrow> cells (fst (shuffleLoopH rand n a h s)) p = cells h p"
proof (induction n arbitrary: h s)
  case 0
  then show ?case by simp
next
  case (Suc n)
  then show ?case by (simp add: Let_def split_beta writeH_frame)
qed

lemma shuffleLoopH_refines:
  "cells (fst (shuffleLoopH rand n a h s)) a = fst (shuffleLoop rand n (cells h a) s)
   \<and> snd (shuffleLoopH rand n a h s) = snd (shuffleLoop rand n (cells h a) s)"
proof (induction n arbitrary: h s)
  case 0
  then show ?case by simp
next
  case (Suc n)
  then show ?case by (simp add: Let_def split_beta writeH_def)
qed

lemma shuffleArrayH_refines:
  assumes "cells h arr = fromList xs"
  shows "items (cells (snd (shuffleArrayH arr rand s h)) (fst (fst (shuffleArrayH arr rand s h))))
           = fst (shuffleArray xs rand s)
         \<and> snd (fst (shuffleArrayH arr rand s h)) = snd (shuffleArray xs rand s)"
  using assms
  by (simp add: shuffleArrayH_def shuffleArray_def sliceH_def Let_def split_beta
      shuffleLoopH_refines fromList_def)

lemma shuffleArrayH_frame:
  "p < nextRef h \<Longrightarrow> cells (snd (shuffleArrayH arr rand s h)) p = cells h p"
  by (simp add: shuffleArrayH_def sliceH_def Let_def split_beta shuffleLoopH_frame)

lemma shuffleArrayH_fresh: "fst (fst (shuffleArrayH arr rand s h)) = nextRef h"
  by (simp add: shuffleArrayH_def sliceH_def Let_def split_beta)

lemma shuffleH_eq: "shuffleH arr draws n h = shuffleArrayH arr (mathRandomAt draws) n h"
  by (simp add: shuffleH_def shuffleArrayH_def)

lemma shuffle_eq: "shuffle arr draws n = shuffleArray arr (mathRandomAt draws) n"
  by (simp add: shuffle_def shuffleArray_def)

text \<open>
  C10. Neither \<open>shuffleArray\<close> (server) nor \<open>shuffle\<close> (client) changes its input:
  called on a reference to an allocated array, each returns a reference to a new array, the
  caller's array holds the same elements in the same order after the call, and so does every
  other array that existed before.
\<close>
theorem shuffle_leaves_input_unchanged:
  "arr < nextRef h \<Longrightarrow>
     cells (snd (shuffleArrayH arr rand s h)) arr = cells h arr
     \<and> fst (fst (shuffleArrayH arr rand s h)) \<noteq> arr
     \<and> (\<forall>p. p < nextRef h \<longrightarrow> cells (snd (shuffleArrayH arr rand s h)) p = cells h p)
     \<and> cells (snd (shuffleH arr draws n h)) arr = cells h arr
     \<and> fst (fst (shuffleH arr draws n h)) \<noteq> arr
     \<and> (\<forall>p. p < nextRef h \<longrightarrow> cells (snd (shuffleH arr draws n h)) p = cells h p)"
  by (simp add: shuffleH_eq shuffleArrayH_frame shuffleArrayH_fresh)

theorem shuffle_leaves_input_unchanged_witness:
  "(0::nat) < nextRef \<lparr>cells = (\<lambda>_. fromList [1, 2, 3 :: nat]), nextRef = 1\<rparr>
   \<and> cells (snd (shuffleArrayH 0 mulberry32 (12345::int)
                \<lparr>cells = (\<lambda>_. fromList [1, 2, 3 :: nat]), nextRef = 1\<rparr>)) 0
       = fromList [1, 2, 3]
   \<and> cells (snd (shuffleH 0 (\<lambda>_. 1 / 2) 0
                \<lparr>cells = (\<lambda>_. fromList [1, 2, 3 :: nat]), nextRef = 1\<rparr>)) 0
       = fromList [1, 2, 3]"
  using shuffle_leaves_input_unchanged
    [of 0 "\<lparr>cells = (\<lambda>_. fromList [1, 2, 3 :: nat]), nextRef = 1\<rparr>" mulberry32 12345 "\<lambda>_. 1 / 2" 0]
  by simp

text \<open>
  C6. The output of the route's shuffle step is a permutation of its input: every output
  entry is a defined entry of the input, with the same multiplicities. With a finite seed
  this holds outright (the draws of \<open>mulberry32\<close> lie in \<open>[0, 1)\<close>); with an invalid or
  missing seed it holds for every sequence of \<open>Math.random\<close> draws in \<open>[0, 1)\<close>.
\<close>
theorem shuffled_is_permutation:
  "mset (shuffled (Some (Finite x)) draws arr) = mset (map Some arr)
   \<and> ((\<forall>n. 0 \<le> draws n \<and> draws n < 1) \<longrightarrow> mset (shuffled sd draws arr) = mset (map Some arr))"
proof -
  have m: "\<forall>s. 0 \<le> fst (mulberry32 s) \<and> fst (mulberry32 s) < 1"
    using mulberry32_range by blast
  have fin: "mset (shuffled (Some (Finite y)) draws arr) = mset (map Some arr)" for y
    by (simp add: shuffled_def numericSeed_def shuffleArray_mset [OF m])
  have other: "mset (shuffled sd draws arr) = mset (map Some arr)"
    if d: "\<forall>n. 0 \<le> draws n \<and> draws n < 1"
  proof -
    have r: "\<forall>s. 0 \<le> fst (mathRandomAt draws s) \<and> fst (mathRandomAt draws s) < 1"
      using d by (simp add: mathRandomAt_def)
    show ?thesis
      by (cases "numericSeed sd")
        (simp_all add: shuffled_def shuffleArray_mset [OF m] shuffleArray_mset [OF r])
  qed
  show ?thesis using fin other by blast
qed

theorem shuffled_is_permutation_witness:
  "(\<forall>n::nat. (0::real) \<le> 1 / 2 \<and> (1::real) / 2 < 1)
   \<and> mset (shuffled (Some (Finite 12345)) (\<lambda>_. 1 / 2) [1, 2, 3 :: nat]) = mset (map Some [1, 2, 3])
   \<and> mset (shuffled None (\<lambda>_. 1 / 2) [1, 2, 3 :: nat]) = mset (map Some [1, 2, 3])
   \<and> mset (shuffled (Some NaN) (\<lambda>_. 1 / 2) [1, 2, 3 :: nat]) = mset (map Some [1, 2, 3])"
  using shuffled_is_permutation [of 12345 "\<lambda>_. 1 / 2" "[1, 2, 3 :: nat]" None]
    shuffled_is_permutation [of 12345 "\<lambda>_. 1 / 2" "[1, 2, 3 :: nat]" "Some NaN"]
  by simp

lemma mulberry32_first_draw: "mulberry32 12345 = (4207900869 / 4294967296, 1831578158)"
  by (simp add: mulberry32_def Let_def roundToDouble_exact)

lemma mulberry32_second_draw: "mulberry32 1831578158 = (1317490944 / 4294967296, 3663143971)"
  by (simp add: mulberry32_def Let_def roundToDouble_exact)

lemma shuffled_seed_12345:
  "shuffled (Some (Finite 12345)) draws [10, 20, 30 :: nat] = [Some 20, Some 10, Some 30]"
proof -
  have n: "length [10, 20, 30 :: nat] - 1 = Suc (Suc 0)" by simp
  have fl: "\<lfloor>12345 :: real\<rfloor> = 12345" by simp
  show ?thesis
    unfolding shuffled_def numericSeed_def shuffleArray_def n fl
    by (simp add: mulberry32_first_draw mulberry32_second_draw Let_def aget_def aset_def
        fromList_def)
qed

text \<open>
  Past \<open>2^53\<close> the state is rounded: from the seed \<open>9007199250000000\<close> the sum
  \<open>9007201081565813\<close> is not a double, the state becomes \<open>9007201081565812\<close>, and the
  draws are those of the rounded states.
\<close>

lemma spacing_from_2_53: "2 ^ 53 \<le> m \<Longrightarrow> m < 2 ^ 54 \<Longrightarrow> spacing m = 2"
proof -
  assume a: "2 ^ 53 \<le> m" and b: "m < 2 ^ 54"
  have "m div 2 < 2 ^ 53" using b by simp
  then have s: "spacing (m div 2) = 1" by (simp add: spacing.simps)
  have "\<not> m < 2 ^ 53" using a by simp
  then have "spacing m = 2 * spacing (m div 2)" by (subst spacing.simps) simp
  then show ?thesis using s by simp
qed

lemma roundToDouble_first_sum: "roundToDouble 9007201081565813 = 9007201081565812"
proof -
  have "spacing (nat \<bar>9007201081565813\<bar>) = 2" by (rule spacing_from_2_53) simp_all
  then show ?thesis by (simp add: roundToDouble_def Let_def)
qed

lemma roundToDouble_second_sum: "roundToDouble 9007202913131625 = 9007202913131624"
proof -
  have "spacing (nat \<bar>9007202913131625\<bar>) = 2" by (rule spacing_from_2_53) simp_all
  then show ?thesis by (simp add: roundToDouble_def Let_def)
qed

lemma mulberry32_rounded_first_draw:
  "mulberry32 9007199250000000 = (1234416712 / 4294967296, 9007201081565812)"
  by (simp add: mulberry32_def Let_def roundToDouble_first_sum)

lemma mulberry32_rounded_second_draw:
  "mulberry32 9007201081565812 = (2904234708 / 4294967296, 9007202913131624)"
  by (simp add: mulberry32_def Let_def roundToDouble_second_sum)

lemma shuffled_seed_beyond_2_53:
  "shuffled (Some (Finite 9007199250000000)) draws [10, 20, 30 :: nat]
     = [Some 30, Some 20, Some 10]"
proof -
  have n: "length [10, 20, 30 :: nat] - 1 = Suc (Suc 0)" by simp
  have fl: "\<lfloor>9007199250000000 :: real\<rfloor> = 9007199250000000" by simp
  show ?thesis
    unfolding shuffled_def numericSeed_def shuffleArray_def n fl
    by (simp add: mulberry32_rounded_first_draw mulberry32_rounded_second_draw Let_def
        aget_def aset_def fromList_def)
qed

text \<open>
  C4. With a finite seed the shuffle step returns the same sequence whenever it is called
  on the same list with the same seed: the result does not depend on the draws of
  \<open>Math.random\<close> around the two calls, it is the Fisher-Yates pass driven by
  \<open>mulberry32\<close> from the state \<open>Math.floor(seed)\<close>, and so is the answer of the whole
  route. Every draw adds the constant \<open>0x6D2B79F5\<close> to the state and rounds the sum to
  the nearest double; as long as the sums stay below \<open>2^53\<close> in absolute value the
  rounding is exact, and the state after the pass is \<open>Math.floor(seed)\<close> plus the
  constant once per draw.
\<close>
theorem seeded_shuffle_deterministic:
  "shuffled (Some (Finite x)) draws1 arr = shuffled (Some (Finite x)) draws2 arr
   \<and> shuffled (Some (Finite x)) draws1 arr = fst (shuffleArray arr mulberry32 \<lfloor>x\<rfloor>)
   \<and> POST_web_recommend js (env\<lparr>mathRandom := draws1\<rparr>) (body\<lparr>seed := Some (Finite x)\<rparr>)
       = POST_web_recommend js (env\<lparr>mathRandom := draws2\<rparr>) (body\<lparr>seed := Some (Finite x)\<rparr>)
   \<and> snd (mulberry32 a) = roundToDouble (a + 0x6D2B79F5)
   \<and> snd (shuffleArray arr mulberry32 \<lfloor>x\<rfloor>)
       = ((\<lambda>s. roundToDouble (s + 0x6D2B79F5)) ^^ (length arr - 1)) \<lfloor>x\<rfloor>
   \<and> (\<bar>a + 0x6D2B79F5\<bar> < 2 ^ 53 \<longrightarrow> snd (mulberry32 a) = a + 0x6D2B79F5)
   \<and> (\<bar>\<lfloor>x\<rfloor>\<bar> + int (length arr - 1) * 0x6D2B79F5 < 2 ^ 53 \<longrightarrow>
        snd (shuffleArray arr mulberry32 \<lfloor>x\<rfloor>) = \<lfloor>x\<rfloor> + int (length arr - 1) * 0x6D2B79F5)"
proof -
  have ind: "shuffled (Some (Finite x)) d ys = fst (shuffleArray ys mulberry32 \<lfloor>x\<rfloor>)"
    for d and ys :: "'b list"
    by (simp add: shuffled_def numericSeed_def)
  have c1: "shuffled (Some (Finite x)) draws1 arr = shuffled (Some (Finite x)) draws2 arr"
    by (simp only: ind)
  have c2: "shuffled (Some (Finite x)) draws1 arr = fst (shuffleArray arr mulberry32 \<lfloor>x\<rfloor>)"
    by (rule ind)
  have c3: "POST_web_recommend js (env\<lparr>mathRandom := draws1\<rparr>) (body\<lparr>seed := Some (Finite x)\<rparr>)
       = POST_web_recommend js (env\<lparr>mathRandom := draws2\<rparr>) (body\<lparr>seed := Some (Finite x)\<rparr>)"
    by (simp add: POST_web_recommend_def Let_def ind
        split: list.split prod.split option.split sum.split)
  have c4: "snd (mulberry32 a) = roundToDouble (a + 0x6D2B79F5)"
    by (rule mulberry32_state)
  have c5: "snd (shuffleArray arr mulberry32 \<lfloor>x\<rfloor>)
       = ((\<lambda>s. roundToDouble (s + 0x6D2B79F5)) ^^ (length arr - 1)) \<lfloor>x\<rfloor>"
    by (simp add: shuffleArray_def split_beta Let_def shuffleLoop_mulberry32_state)
  have c6: "\<bar>a + 0x6D2B79F5\<bar> < 2 ^ 53 \<longrightarrow> snd (mulberry32 a) = a + 0x6D2B79F5"
    by (simp add: mulberry32_state_exact)
  have c7: "\<bar>\<lfloor>x\<rfloor>\<bar> + int (length arr - 1) * 0x6D2B79F5 < 2 ^ 53 \<longrightarrow>
        snd (shuffleArray arr mulberry32 \<lfloor>x\<rfloor>) = \<lfloor>x\<rfloor> + int (length arr - 1) * 0x6D2B79F5"
  proof
    assume "\<bar>\<lfloor>x\<rfloor>\<bar> + int (length arr - 1) * 0x6D2B79F5 < 2 ^ 53"
    from state_exact [OF this] show
      "snd (shuffleArray arr mulberry32 \<lfloor>x\<rfloor>) = \<lfloor>x\<rfloor> + int (length arr - 1) * 0x6D2B79F5"
      by (simp only: c5)
  qed
  from c1 c2 c3 c4 c5 c6 c7 show ?thesis by (intro conjI)
qed

theorem seeded_shuffle_deterministic_witness:
  "shuffled (Some (Finite 12345)) (\<lambda>_. 0) [10, 20, 30 :: nat]
     = shuffled (Some (Finite 12345)) (\<lambda>_. 1 / 2) [10, 20, 30]
   \<and> shuffled (Some (Finite 12345)) (\<lambda>_. 0) [10, 20, 30 :: nat] = [Some 20, Some 10, Some 30]
   \<and> \<bar>\<lfloor>12345 :: real\<rfloor>\<bar> + int (length [10, 20, 30 :: nat] - 1) * 0x6D2B79F5 < 2 ^ 53
   \<and> snd (shuffleArray [10, 20, 30 :: nat] mulberry32 \<lfloor>12345 :: real\<rfloor>)
       = \<lfloor>12345 :: real\<rfloor> + int (length [10, 20, 30 :: nat] - 1) * 0x6D2B79F5
   \<and> \<bar>12345 + 0x6D2B79F5 :: int\<bar> < 2 ^ 53
   \<and> snd (mulberry32 12345) = 12345 + 0x6D2B79F5"
proof -
  have b1: "\<bar>\<lfloor>12345 :: real\<rfloor>\<bar> + int (length [10, 20, 30 :: nat] - 1) * 0x6D2B79F5 < 2 ^ 53"
    by simp
  have b2: "\<bar>12345 + 0x6D2B79F5 :: int\<bar> < 2 ^ 53" by simp
  show ?thesis
    using seeded_shuffle_deterministic [of 12345 "\<lambda>_. 0" "[10, 20, 30 :: nat]" "\<lambda>_. 1 / 2"
        asciiOps exampleEnv "exampleRequest 5" 12345]
      shuffled_seed_12345 [of "\<lambda>_. 0"] b1 b2
    by blast
qed

subsection \<open>The dedup loop keeps the first occurrence of every non-empty key\<close>

lemma dedupLoop_append:
  "dedupLoop js (xs @ ys) seen acc
   = dedupLoop js ys (seen \<union> ((\<lambda>d. normTitle js (title d)) ` set xs - {[]})) (dedupLoop js xs seen acc)"
proof (induction xs arbitrary: seen acc)
  case Nil
  then show ?case by simp
next
  case (Cons d xs)
  let ?t = "normTitle js (title d)"
  let ?K = "\<lambda>zs. (\<lambda>d. normTitle js (title d)) ` set zs - {[]}"
  consider (blank) "?t = []" | (dup) "?t \<noteq> []" "?t \<in> seen" | (new) "?t \<noteq> []" "?t \<notin> seen"
    by blast
  then show ?case
  proof cases
    case blank
    then have "seen \<union> ?K (d # xs) = seen \<union> ?K xs" by auto
    then show ?thesis using blank Cons.IH [of seen acc] by (simp add: Let_def)
  next
    case dup
    then have "seen \<union> ?K (d # xs) = seen \<union> ?K xs" by auto
    then show ?thesis using dup Cons.IH [of seen acc] by (simp add: Let_def)
  next
    case new
    then have "seen \<union> ?K (d # xs) = insert ?t seen \<union> ?K xs" by auto
    then show ?thesis using new Cons.IH [of "insert ?t seen" "acc @ [d]"] by (simp add: Let_def)
  qed
qed

lemma dedup_snoc:
  "dedup js (xs @ [x])
   = dedup js xs @ (if normTitle js (title x) \<noteq> [] \<and> normTitle js (title x) \<notin> (\<lambda>d. normTitle js (title d)) ` set xs
                 then [x] else [])"
  by (simp add: dedup_def dedupLoop_append Let_def)

lemma dedup_Nil: "dedup js [] = []"
  by (simp add: dedup_def)

lemma dedup_keys:
  "(\<lambda>d. normTitle js (title d)) ` set (dedup js xs) = (\<lambda>d. normTitle js (title d)) ` set xs - {[]}"
  by (induction xs rule: rev_induct) (auto simp add: dedup_Nil dedup_snoc)

lemma dedup_distinct: "distinct (map (\<lambda>d. normTitle js (title d)) (dedup js xs))"
proof (induction xs rule: rev_induct)
  case Nil
  then show ?case by (simp add: dedup_Nil)
next
  case (snoc x xs)
  have "normTitle js (title x) \<notin> (\<lambda>d. normTitle js (title d)) ` set (dedup js xs)"
    if "normTitle js (title x) \<notin> (\<lambda>d. normTitle js (title d)) ` set xs"
    using that by (simp add: dedup_keys)
  then show ?case using snoc by (auto simp add: dedup_snoc)
qed

lemma firstSeen_append:
  "i < length xs \<Longrightarrow> firstSeen js (xs @ ys) i = firstSeen js xs i"
  by (simp add: firstSeen_def nth_append)

lemma notin_image_iff: "(k \<notin> f ` S) = (\<forall>y \<in> S. f y \<noteq> k)"
  by blast

lemma all_nth_notin_image:
  "(\<forall>j < length xs. f (xs ! j) \<noteq> k) = (k \<notin> f ` set xs)"
  unfolding notin_image_iff by (simp add: all_set_conv_all_nth)

lemma firstSeen_last:
  "firstSeen js (xs @ [x]) (length xs)
   = (normTitle js (title x) \<noteq> [] \<and> normTitle js (title x) \<notin> (\<lambda>d. normTitle js (title d)) ` set xs)"
proof -
  have "(\<forall>j < length xs. normTitle js (title (xs ! j)) \<noteq> normTitle js (title x))
        = (normTitle js (title x) \<notin> (\<lambda>d. normTitle js (title d)) ` set xs)"
    by (rule all_nth_notin_image)
  then show ?thesis by (simp add: firstSeen_def nth_append)
qed

lemma dedup_positions:
  "dedup js xs = map (\<lambda>i. xs ! i) (filter (firstSeen js xs) [0..<length xs])"
proof (induction xs rule: rev_induct)
  case Nil
  then show ?case by (simp add: dedup_Nil)
next
  case (snoc x xs)
  have f: "filter (firstSeen js (xs @ [x])) [0..<length xs] = filter (firstSeen js xs) [0..<length xs]"
    by (rule filter_cong) (simp_all add: firstSeen_append)
  have m: "map (\<lambda>i. (xs @ [x]) ! i) (filter (firstSeen js xs) [0..<length xs])
           = map (\<lambda>i. xs ! i) (filter (firstSeen js xs) [0..<length xs])"
    by (rule map_cong) (simp_all add: nth_append)
  show ?case
    by (simp add: dedup_snoc snoc.IH f m firstSeen_last)
qed


text \<open>
  C7. After the dedup step (step 5 of the web-recommend route) no two entries share a
  normalized title, no entry has an empty normalized title, and the result consists of the
  first-seen positions of the input, in the input's order. This holds whatever
  \<open>toLowerCase\<close> and \<open>trim\<close> compute, hence for those of ECMAScript on any title.
\<close>

theorem dedup_first_seen_distinct:
  "distinct (map (\<lambda>d. normTitle js (title d)) (dedup js recommendations))
   \<and> (\<forall>d \<in> set (dedup js recommendations). normTitle js (title d) \<noteq> [])
   \<and> dedup js recommendations
       = map (\<lambda>i. recommendations ! i)
           (filter (firstSeen js recommendations) [0..<length recommendations])"
proof -
  have "normTitle js (title d) \<noteq> []" if "d \<in> set (dedup js recommendations)" for d
  proof -
    have "normTitle js (title d) \<in> (\<lambda>d. normTitle js (title d)) ` set (dedup js recommendations)"
      using that by (rule imageI)
    then show ?thesis by (simp add: dedup_keys)
  qed
  then show ?thesis
    using dedup_distinct [of js recommendations] dedup_positions [of js recommendations] by blast
qed

theorem dedup_first_seen_distinct_witness:
  "dedup asciiOps [\<lparr>title = ''Dune'', author = ''A'', key = None, source = ''openlibrary''\<rparr>,
          \<lparr>title = '' dune '', author = ''B'', key = None, source = ''openlibrary''\<rparr>,
          \<lparr>title = ''  '', author = ''C'', key = None, source = ''openlibrary''\<rparr>,
          \<lparr>title = ''Emma'', author = ''D'', key = None, source = ''openlibrary''\<rparr>]
   = [\<lparr>title = ''Dune'', author = ''A'', key = None, source = ''openlibrary''\<rparr>,
      \<lparr>title = ''Emma'', author = ''D'', key = None, source = ''openlibrary''\<rparr>]
   \<and> distinct (map (\<lambda>d. normTitle asciiOps (title d))
        (dedup asciiOps [\<lparr>title = ''Dune'', author = ''A'', key = None, source = ''openlibrary''\<rparr>,
          \<lparr>title = '' dune '', author = ''B'', key = None, source = ''openlibrary''\<rparr>,
          \<lparr>title = ''  '', author = ''C'', key = None, source = ''openlibrary''\<rparr>,
          \<lparr>title = ''Emma'', author = ''D'', key = None, source = ''openlibrary''\<rparr>]))"
proof -
  have "dedup asciiOps [\<lparr>title = ''Dune'', author = ''A'', key = None, source = ''openlibrary''\<rparr>,
          \<lparr>title = '' dune '', author = ''B'', key = None, source = ''openlibrary''\<rparr>,
          \<lparr>title = ''  '', author = ''C'', key = None, source = ''openlibrary''\<rparr>,
          \<lparr>title = ''Emma'', author = ''D'', key = None, source = ''openlibrary''\<rparr>]
   = [\<lparr>title = ''Dune'', author = ''A'', key = None, source = ''openlibrary''\<rparr>,
      \<lparr>title = ''Emma'', author = ''D'', key = None, source = ''openlibrary''\<rparr>]"
    by (simp add: dedup_def Let_def asciiOps_def normTitle_def asciiTrim_def asciiToLowerCase_def
        asciiToLowerChar_def isAsciiWhiteSpace_def)
  then show ?thesis
    using dedup_first_seen_distinct
      [of asciiOps "[\<lparr>title = ''Dune'', author = ''A'', key = None, source = ''openlibrary''\<rparr>,
          \<lparr>title = '' dune '', author = ''B'', key = None, source = ''openlibrary''\<rparr>,
          \<lparr>title = ''  '', author = ''C'', key = None, source = ''openlibrary''\<rparr>,
          \<lparr>title = ''Emma'', author = ''D'', key = None, source = ''openlibrary''\<rparr>]"]
    by blast
qed

subsection \<open>The widening pass\<close>

lemma mergeLoop_acc: "mergeLoop js ws seen acc = acc @ mergeLoop js ws seen []"
proof (induction ws arbitrary: seen acc)
  case Nil
  then show ?case by simp
next
  case (Cons d ws)
  show ?case
  proof (cases "normTitle js (title d) \<in> seen")
    case True
    then show ?thesis using Cons.IH [of seen acc] by simp
  next
    case False
    have "mergeLoop js (d # ws) seen acc = (acc @ [d]) @ mergeLoop js ws (insert (normTitle js (title d)) seen) []"
      using False Cons.IH [of "insert (normTitle js (title d)) seen" "acc @ [d]"] by simp
    moreover have "mergeLoop js (d # ws) seen [] = [d] @ mergeLoop js ws (insert (normTitle js (title d)) seen) []"
      using False Cons.IH [of "insert (normTitle js (title d)) seen" "[d]"] by simp
    ultimately show ?thesis by simp
  qed
qed

lemma dedupLoop_mergeLoop:
  "seen \<subseteq> insert [] S \<Longrightarrow> dedupLoop js (mergeLoop js ws seen []) S acc = dedupLoop js ws S acc"
proof (induction ws arbitrary: seen S acc)
  case Nil
  then show ?case by simp
next
  case (Cons d ws)
  let ?t = "normTitle js (title d)"
  show ?case
  proof (cases "?t \<in> seen")
    case True
    then have "?t = [] \<or> ?t \<in> S" using Cons.prems by blast
    then show ?thesis using True Cons.IH [OF Cons.prems, of acc] by (auto simp add: Let_def)
  next
    case False
    define X where "X = mergeLoop js ws (insert ?t seen) []"
    have m: "mergeLoop js (d # ws) seen [] = d # X"
      unfolding X_def using False mergeLoop_acc [of js ws "insert ?t seen" "[d]"] by simp
    consider (blank) "?t = []" | (dup) "?t \<noteq> []" "?t \<in> S" | (new) "?t \<noteq> []" "?t \<notin> S"
      by blast
    then show ?thesis
    proof cases
      case blank
      then have "insert ?t seen \<subseteq> insert [] S" using Cons.prems by auto
      then have "dedupLoop js X S acc = dedupLoop js ws S acc"
        unfolding X_def by (rule Cons.IH)
      moreover have "dedupLoop js (d # X) S acc = dedupLoop js X S acc"
        using blank by (simp add: Let_def)
      moreover have "dedupLoop js (d # ws) S acc = dedupLoop js ws S acc"
        using blank by (simp add: Let_def)
      ultimately show ?thesis by (simp only: m)
    next
      case dup
      then have "insert ?t seen \<subseteq> insert [] S" using Cons.prems by auto
      then have "dedupLoop js X S acc = dedupLoop js ws S acc"
        unfolding X_def by (rule Cons.IH)
      moreover have "dedupLoop js (d # X) S acc = dedupLoop js X S acc"
        using dup by (simp add: Let_def)
      moreover have "dedupLoop js (d # ws) S acc = dedupLoop js ws S acc"
        using dup by (simp add: Let_def)
      ultimately show ?thesis by (simp only: m)
    next
      case new
      then have "insert ?t seen \<subseteq> insert [] (insert ?t S)" using Cons.prems by auto
      then have "dedupLoop js X (insert ?t S) (acc @ [d]) = dedupLoop js ws (insert ?t S) (acc @ [d])"
        unfolding X_def by (rule Cons.IH)
      moreover have "dedupLoop js (d # X) S acc = dedupLoop js X (insert ?t S) (acc @ [d])"
        using new by (simp add: Let_def)
      moreover have "dedupLoop js (d # ws) S acc = dedupLoop js ws (insert ?t S) (acc @ [d])"
        using new by (simp add: Let_def)
      ultimately show ?thesis by (simp only: m)
    qed
  qed
qed

lemma dedup_mergeLoop:
  "dedup js (mergeLoop js ws ((\<lambda>r. normTitle js (title r)) ` set ps) ps) = dedup js (ps @ ws)"
proof -
  let ?K = "(\<lambda>d. normTitle js (title d)) ` set ps"
  have sub: "?K \<subseteq> insert [] ({} \<union> (?K - {[]}))" by auto
  have "dedup js (mergeLoop js ws ?K ps) = dedup js (ps @ mergeLoop js ws ?K [])"
    using mergeLoop_acc [of js ws ?K ps] by simp
  also have "\<dots> = dedupLoop js (mergeLoop js ws ?K []) ({} \<union> (?K - {[]})) (dedupLoop js ps {} [])"
    by (simp only: dedup_def dedupLoop_append)
  also have "\<dots> = dedupLoop js ws ({} \<union> (?K - {[]})) (dedupLoop js ps {} [])"
    using sub by (rule dedupLoop_mergeLoop)
  also have "\<dots> = dedup js (ps @ ws)"
    by (simp only: dedup_def dedupLoop_append)
  finally show ?thesis by simp
qed

lemma length_dedup:
  "length (dedup js xs) = card ((\<lambda>d. normTitle js (title d)) ` set xs - {[]})"
proof -
  have "length (dedup js xs) = length (map (\<lambda>d. normTitle js (title d)) (dedup js xs))" by simp
  also have "\<dots> = card (set (map (\<lambda>d. normTitle js (title d)) (dedup js xs)))"
    using dedup_distinct [of js xs] by (simp only: distinct_card)
  also have "\<dots> = card ((\<lambda>d. normTitle js (title d)) ` set xs - {[]})"
    by (simp add: dedup_keys)
  finally show ?thesis .
qed

lemma fetchLimit_range: "20 \<le> fetchLimit k \<and> fetchLimit k \<le> 100"
  by (simp add: fetchLimit_def)

lemma wideningLimit_larger: "fetchLimit k < wideningLimit k"
  using fetchLimit_range [of k] by (simp add: wideningLimit_def)

lemma requestedTopK_range: "1 \<le> requestedTopK tk \<and> requestedTopK tk \<le> 50"
  by (simp add: requestedTopK_def split: option.split jsnumber.split)

lemma requestedTopK_missing: "requestedTopK None = 5"
  by (simp add: requestedTopK_def)

lemma collectCandidates_widens:
  assumes "queryOpenLibrary js ol lt (queryText js b) (fetchLimit k) = Inr primaryDocs"
    and "real (length primaryDocs) < min 2 k"
    and "truthy (b_title b) = t # ts"
    and "queryOpenLibrary js ol lt t (wideningLimit k) = Inr titleOnlyDocs"
  shows "collectCandidates js ol lt b k
         = ([(queryText js b, fetchLimit k), (t, wideningLimit k)],
            Inr (mergeLoop js titleOnlyDocs (set (map (\<lambda>r. normTitle js (title r)) primaryDocs)) primaryDocs))"
  using assms by (simp add: collectCandidates_def Let_def)

lemma collectCandidates_no_widening:
  assumes "queryOpenLibrary js ol lt (queryText js b) (fetchLimit k) = Inr primaryDocs"
    and "min 2 k \<le> real (length primaryDocs) \<or> truthy (b_title b) = []"
  shows "collectCandidates js ol lt b k = ([(queryText js b, fetchLimit k)], Inr primaryDocs)"
  using assms by (auto simp add: collectCandidates_def Let_def split: list.splits)


lemma POST_web_recommend_widened:
  assumes "truthy (bookId body) = bid # rest"
    and "bookById env bid = (None, Some b)"
    and "queryText js b \<noteq> []"
    and "truthy (b_title b) = t # ts"
    and "queryOpenLibrary js (openLibrary env) (localTitles js (allBookTitles env)) (queryText js b)
           (fetchLimit (requestedTopK (topK body))) = Inr primaryDocs"
    and "real (length primaryDocs) < min 2 (requestedTopK (topK body))"
    and "queryOpenLibrary js (openLibrary env) (localTitles js (allBookTitles env)) t
           (wideningLimit (requestedTopK (topK body))) = Inr titleOnlyDocs"
  shows "POST_web_recommend js env body
         = (Ok200 (slice0 (shuffled (seed body) (mathRandom env) (dedup js (primaryDocs @ titleOnlyDocs)))
                     (requestedTopK (topK body))),
            [(queryText js b, fetchLimit (requestedTopK (topK body))),
             (t, wideningLimit (requestedTopK (topK body)))])"
proof -
  have "collectCandidates js (openLibrary env) (localTitles js (allBookTitles env)) b
          (requestedTopK (topK body))
        = ([(queryText js b, fetchLimit (requestedTopK (topK body))),
            (t, wideningLimit (requestedTopK (topK body)))],
           Inr (mergeLoop js titleOnlyDocs (set (map (\<lambda>r. normTitle js (title r)) primaryDocs)) primaryDocs))"
    using assms(5,6,4,7) by (rule collectCandidates_widens)
  then show ?thesis
    using assms(1,2,3) by (simp add: POST_web_recommend_def Let_def dedup_mergeLoop)
qed

lemma card_keys_append:
  "card ((\<lambda>d. normTitle js (title d)) ` set (ps @ ws) - {[]})
   = card ((\<lambda>d. normTitle js (title d)) ` set ps - {[]})
     + card ((\<lambda>d. normTitle js (title d)) ` set ws - {[]} - (\<lambda>d. normTitle js (title d)) ` set ps)"
proof -
  let ?k = "\<lambda>d. normTitle js (title d)"
  have "?k ` set (ps @ ws) - {[]} = (?k ` set ps - {[]}) \<union> (?k ` set ws - {[]} - ?k ` set ps)"
    by auto
  moreover have "(?k ` set ps - {[]}) \<inter> (?k ` set ws - {[]} - ?k ` set ps) = {}"
    by auto
  moreover have "finite (?k ` set ps - {[]})" "finite (?k ` set ws - {[]} - ?k ` set ps)"
    by simp_all
  ultimately show ?thesis by (simp add: card_Un_disjoint)
qed

text \<open>
  C8, as the code has it. When the primary search returns a list shorter than
  \<open>min(2, topK)\<close> and the target has a title, the route sends exactly one more search, for
  the bare title, with a larger limit; the list handed to the shuffle is the first-seen dedup
  of the primary results followed by the widened ones. With one primary candidate whose
  normalized title is not empty and three further distinct non-empty normalized titles among
  the widened results (and \<open>topK = 5\<close>), that list has 4 entries. This holds whatever
  \<open>toLowerCase\<close> and \<open>trim\<close> compute.
\<close>

theorem widening_pass_first_seen_merge:
  assumes "truthy (bookId body) = bid # rest"
    and "bookById env bid = (None, Some b)"
    and "queryText js b \<noteq> []"
    and "truthy (b_title b) = t # ts"
    and "queryOpenLibrary js (openLibrary env) (localTitles js (allBookTitles env)) (queryText js b)
           (fetchLimit (requestedTopK (topK body))) = Inr primaryDocs"
    and "real (length primaryDocs) < min 2 (requestedTopK (topK body))"
    and "queryOpenLibrary js (openLibrary env) (localTitles js (allBookTitles env)) t
           (wideningLimit (requestedTopK (topK body))) = Inr titleOnlyDocs"
  shows "POST_web_recommend js env body
         = (Ok200 (slice0 (shuffled (seed body) (mathRandom env) (dedup js (primaryDocs @ titleOnlyDocs)))
                     (requestedTopK (topK body))),
            [(queryText js b, fetchLimit (requestedTopK (topK body))),
             (t, wideningLimit (requestedTopK (topK body)))])
         \<and> fetchLimit (requestedTopK (topK body)) < wideningLimit (requestedTopK (topK body))
         \<and> dedup js (primaryDocs @ titleOnlyDocs)
             = map (\<lambda>i. (primaryDocs @ titleOnlyDocs) ! i)
                 (filter (firstSeen js (primaryDocs @ titleOnlyDocs))
                    [0..<length (primaryDocs @ titleOnlyDocs)])
         \<and> (topK body = Some (Finite 5) \<and> primaryDocs = [p] \<and> normTitle js (title p) \<noteq> []
              \<and> card ((\<lambda>d. normTitle js (title d)) ` set titleOnlyDocs - {[]} - {normTitle js (title p)}) = 3
              \<longrightarrow> length (dedup js (primaryDocs @ titleOnlyDocs)) = 4)"
proof -
  have scenario: "length (dedup js (primaryDocs @ titleOnlyDocs)) = 4"
    if "primaryDocs = [p]" "normTitle js (title p) \<noteq> []"
      "card ((\<lambda>d. normTitle js (title d)) ` set titleOnlyDocs - {[]} - {normTitle js (title p)}) = 3"
  proof -
    have "card ((\<lambda>d. normTitle js (title d)) ` set primaryDocs - {[]}) = 1"
      using that(1,2) by simp
    moreover have "(\<lambda>d. normTitle js (title d)) ` set primaryDocs = {normTitle js (title p)}"
      using that(1) by simp
    ultimately show ?thesis
      using that(3) by (simp only: length_dedup card_keys_append)
  qed
  show ?thesis
    using POST_web_recommend_widened [OF assms] wideningLimit_larger dedup_positions scenario
    by blast
qed

lemma example_requestedTopK: "requestedTopK (topK (exampleRequest 5)) = 5"
  by (simp add: exampleRequest_def requestedTopK_def)

lemma example_queryText: "queryText asciiOps exampleBook = ''Dune Frank''"
  by (simp add: queryText_def exampleBook_def truthy_def asciiTrim_def isAsciiWhiteSpace_def asciiOps_def)

lemma example_localTitles: "localTitles asciiOps (allBookTitles exampleEnv) = {''dune''}"
  by (simp add: exampleEnv_def localTitles_def truthy_def normTitle_def asciiTrim_def asciiToLowerCase_def
      asciiToLowerChar_def isAsciiWhiteSpace_def asciiOps_def)

lemma example_primary:
  "queryOpenLibrary asciiOps exampleSearch {''dune''} ''Dune Frank'' 30 = Inr [exampleCandidate ''Dune Messiah'']"
  by (simp add: queryOpenLibrary_def exampleSearch_def exampleDoc_def exampleCandidate_def mapDoc_def
      normTitle_def asciiTrim_def asciiToLowerCase_def asciiToLowerChar_def isAsciiWhiteSpace_def asciiOps_def)

lemma example_widened:
  "queryOpenLibrary asciiOps exampleSearch {''dune''} ''Dune'' 60
   = Inr [exampleCandidate ''dune messiah '', exampleCandidate ''Children of Dune'',
          exampleCandidate ''Emma'', exampleCandidate ''Ulysses'']"
  by (simp add: queryOpenLibrary_def exampleSearch_def exampleDoc_def exampleCandidate_def mapDoc_def
      normTitle_def asciiTrim_def asciiToLowerCase_def asciiToLowerChar_def isAsciiWhiteSpace_def asciiOps_def)

lemma example_keys:
  "normTitle asciiOps (title (exampleCandidate ''Dune Messiah'')) = ''dune messiah''"
  "normTitle asciiOps (title (exampleCandidate ''dune messiah '')) = ''dune messiah''"
  "normTitle asciiOps (title (exampleCandidate ''Children of Dune'')) = ''children of dune''"
  "normTitle asciiOps (title (exampleCandidate ''Emma'')) = ''emma''"
  "normTitle asciiOps (title (exampleCandidate ''Ulysses'')) = ''ulysses''"
  by (simp_all add: exampleCandidate_def normTitle_def asciiTrim_def asciiToLowerCase_def asciiToLowerChar_def
      isAsciiWhiteSpace_def asciiOps_def)


theorem widening_pass_first_seen_merge_witness:
  "POST_web_recommend asciiOps exampleEnv (exampleRequest 5)
   = (Ok200 (slice0 (shuffled (Some (Finite 12345)) (\<lambda>_. 0)
                (dedup asciiOps ([exampleCandidate ''Dune Messiah'']
                        @ [exampleCandidate ''dune messiah '', exampleCandidate ''Children of Dune'',
                           exampleCandidate ''Emma'', exampleCandidate ''Ulysses''])))
              5),
      [(''Dune Frank'', 30), (''Dune'', 60)])
   \<and> length (dedup asciiOps ([exampleCandidate ''Dune Messiah'']
                    @ [exampleCandidate ''dune messiah '', exampleCandidate ''Children of Dune'',
                       exampleCandidate ''Emma'', exampleCandidate ''Ulysses''])) = 4"
proof -
  let ?ps = "[exampleCandidate ''Dune Messiah'']"
  let ?ws = "[exampleCandidate ''dune messiah '', exampleCandidate ''Children of Dune'',
              exampleCandidate ''Emma'', exampleCandidate ''Ulysses'']"
  have k: "requestedTopK (topK (exampleRequest 5)) = 5"
    by (rule example_requestedTopK)
  have fl: "fetchLimit 5 = 30" "wideningLimit 5 = 60"
    by (simp_all add: fetchLimit_def wideningLimit_def)
  have ol: "openLibrary exampleEnv = exampleSearch"
    by (simp add: exampleEnv_def)
  have h1: "truthy (bookId (exampleRequest 5)) = ''b1'' # []"
    by (simp add: exampleRequest_def truthy_def)
  have h2: "bookById exampleEnv ''b1'' = (None, Some exampleBook)"
    by (simp add: exampleEnv_def)
  have h3: "queryText asciiOps exampleBook \<noteq> []"
    by (simp add: example_queryText)
  have h4: "truthy (b_title exampleBook) = ''Dune'' # []"
    by (simp add: exampleBook_def truthy_def)
  have h5: "queryOpenLibrary asciiOps (openLibrary exampleEnv) (localTitles asciiOps (allBookTitles exampleEnv))
              (queryText asciiOps exampleBook) (fetchLimit (requestedTopK (topK (exampleRequest 5)))) = Inr ?ps"
    by (simp only: k fl ol example_localTitles example_queryText example_primary)
  have h6: "real (length ?ps) < min 2 (requestedTopK (topK (exampleRequest 5)))"
    by (simp add: k)
  have h7: "queryOpenLibrary asciiOps (openLibrary exampleEnv) (localTitles asciiOps (allBookTitles exampleEnv))
              ''Dune'' (wideningLimit (requestedTopK (topK (exampleRequest 5)))) = Inr ?ws"
    by (simp only: k fl ol example_localTitles example_widened)
  have s1: "topK (exampleRequest 5) = Some (Finite 5)"
    by (simp add: exampleRequest_def)
  have s2: "normTitle asciiOps (title (exampleCandidate ''Dune Messiah'')) \<noteq> []"
    by (simp add: example_keys)
  have s3: "card ((\<lambda>d. normTitle asciiOps (title d)) ` set ?ws - {[]}
              - {normTitle asciiOps (title (exampleCandidate ''Dune Messiah''))}) = 3"
    by (simp add: example_keys)
  have sd: "seed (exampleRequest 5) = Some (Finite 12345)" "mathRandom exampleEnv = (\<lambda>_. 0)"
    by (simp_all add: exampleRequest_def exampleEnv_def)
  note main = widening_pass_first_seen_merge
      [OF h1 h2 h3 h4 h5 h6 h7, of "exampleCandidate ''Dune Messiah''"]
  from main have "POST_web_recommend asciiOps exampleEnv (exampleRequest 5)
      = (Ok200 (slice0 (shuffled (seed (exampleRequest 5)) (mathRandom exampleEnv) (dedup asciiOps (?ps @ ?ws)))
                  (requestedTopK (topK (exampleRequest 5)))),
         [(queryText asciiOps exampleBook, fetchLimit (requestedTopK (topK (exampleRequest 5)))),
          (''Dune'', wideningLimit (requestedTopK (topK (exampleRequest 5))))])"
    by (rule conjunct1)
  then have post: "POST_web_recommend asciiOps exampleEnv (exampleRequest 5)
      = (Ok200 (slice0 (shuffled (Some (Finite 12345)) (\<lambda>_. 0) (dedup asciiOps (?ps @ ?ws))) 5),
         [(''Dune Frank'', 30), (''Dune'', 60)])"
    by (simp only: k fl sd example_queryText)
  from main s1 s2 s3 have "length (dedup asciiOps (?ps @ ?ws)) = 4"
    by blast
  with post show ?thesis by (rule conjI)
qed


lemma length_shuffled_seeded: "length (shuffled (Some (Finite x)) draws arr) = length arr"
proof -
  have "\<forall>s. 0 \<le> fst (mulberry32 s) \<and> fst (mulberry32 s) < 1"
    using mulberry32_range by blast
  then have "mset (fst (shuffleArray arr mulberry32 \<lfloor>x\<rfloor>)) = mset (map Some arr)"
    by (rule shuffleArray_mset)
  then have "size (mset (fst (shuffleArray arr mulberry32 \<lfloor>x\<rfloor>))) = size (mset (map Some arr))"
    by simp
  then show ?thesis by (simp add: shuffled_def numericSeed_def)
qed

text \<open>
  The count of C8's scenario as the claim words it fails when a title is blank: one primary
  candidate whose title is white space only and three new titles from the title-only search
  give a list of 3 for the shuffle, and 3 entries in the answer.
\<close>

theorem widening_blank_title_counts_three:
  "queryOpenLibrary asciiOps (openLibrary exampleBlankEnv) (localTitles asciiOps (allBookTitles exampleBlankEnv))
     (queryText asciiOps exampleBook) (fetchLimit (requestedTopK (topK (exampleRequest 5))))
     = Inr [exampleCandidate ''  '']
   \<and> queryOpenLibrary asciiOps (openLibrary exampleBlankEnv) (localTitles asciiOps (allBookTitles exampleBlankEnv))
       ''Dune'' (wideningLimit (requestedTopK (topK (exampleRequest 5))))
     = Inr [exampleCandidate ''Children of Dune'', exampleCandidate ''Emma'', exampleCandidate ''Ulysses'']
   \<and> dedup asciiOps ([exampleCandidate ''  '']
             @ [exampleCandidate ''Children of Dune'', exampleCandidate ''Emma'',
                exampleCandidate ''Ulysses''])
     = [exampleCandidate ''Children of Dune'', exampleCandidate ''Emma'', exampleCandidate ''Ulysses'']
   \<and> length (responseItems (fst (POST_web_recommend asciiOps exampleBlankEnv (exampleRequest 5)))) = 3"
proof -
  let ?ps = "[exampleCandidate ''  '']"
  let ?ws = "[exampleCandidate ''Children of Dune'', exampleCandidate ''Emma'',
              exampleCandidate ''Ulysses'']"
  have k: "requestedTopK (topK (exampleRequest 5)) = 5"
    by (rule example_requestedTopK)
  have fl: "fetchLimit 5 = 30" "wideningLimit 5 = 60"
    by (simp_all add: fetchLimit_def wideningLimit_def)
  have ol: "openLibrary exampleBlankEnv = exampleBlankSearch"
    by (simp add: exampleBlankEnv_def)
  have lt: "localTitles asciiOps (allBookTitles exampleBlankEnv) = {''dune''}"
    using example_localTitles by (simp add: exampleBlankEnv_def exampleEnv_def)
  have h1: "truthy (bookId (exampleRequest 5)) = ''b1'' # []"
    by (simp add: exampleRequest_def truthy_def)
  have h2: "bookById exampleBlankEnv ''b1'' = (None, Some exampleBook)"
    by (simp add: exampleBlankEnv_def exampleEnv_def)
  have h3: "queryText asciiOps exampleBook \<noteq> []"
    by (simp add: example_queryText)
  have h4: "truthy (b_title exampleBook) = ''Dune'' # []"
    by (simp add: exampleBook_def truthy_def)
  have p: "queryOpenLibrary asciiOps exampleBlankSearch {''dune''} ''Dune Frank'' 30 = Inr ?ps"
    by (simp add: queryOpenLibrary_def exampleBlankSearch_def exampleDoc_def exampleCandidate_def
        mapDoc_def normTitle_def asciiTrim_def asciiToLowerCase_def asciiToLowerChar_def isAsciiWhiteSpace_def asciiOps_def)
  have w: "queryOpenLibrary asciiOps exampleBlankSearch {''dune''} ''Dune'' 60 = Inr ?ws"
    by (simp add: queryOpenLibrary_def exampleBlankSearch_def exampleDoc_def exampleCandidate_def
        mapDoc_def normTitle_def asciiTrim_def asciiToLowerCase_def asciiToLowerChar_def isAsciiWhiteSpace_def asciiOps_def)
  have h5: "queryOpenLibrary asciiOps (openLibrary exampleBlankEnv) (localTitles asciiOps (allBookTitles exampleBlankEnv))
              (queryText asciiOps exampleBook) (fetchLimit (requestedTopK (topK (exampleRequest 5)))) = Inr ?ps"
    by (simp only: k fl ol lt example_queryText p)
  have h6: "real (length ?ps) < min 2 (requestedTopK (topK (exampleRequest 5)))"
    by (simp add: k)
  have h7: "queryOpenLibrary asciiOps (openLibrary exampleBlankEnv) (localTitles asciiOps (allBookTitles exampleBlankEnv))
              ''Dune'' (wideningLimit (requestedTopK (topK (exampleRequest 5)))) = Inr ?ws"
    by (simp only: k fl ol lt w)
  have d: "dedup asciiOps (?ps @ ?ws) = ?ws"
    by (simp add: dedup_def Let_def exampleCandidate_def normTitle_def asciiTrim_def asciiToLowerCase_def
        asciiToLowerChar_def isAsciiWhiteSpace_def asciiOps_def)
  have sd: "seed (exampleRequest 5) = Some (Finite 12345)"
    by (simp add: exampleRequest_def)
  have "POST_web_recommend asciiOps exampleBlankEnv (exampleRequest 5)
        = (Ok200 (slice0 (shuffled (seed (exampleRequest 5)) (mathRandom exampleBlankEnv)
                            (dedup asciiOps (?ps @ ?ws)))
                    (requestedTopK (topK (exampleRequest 5)))),
           [(queryText asciiOps exampleBook, fetchLimit (requestedTopK (topK (exampleRequest 5)))),
            (''Dune'', wideningLimit (requestedTopK (topK (exampleRequest 5))))])"
    using h1 h2 h3 h4 h5 h6 h7 by (rule POST_web_recommend_widened)
  then have "responseItems (fst (POST_web_recommend asciiOps exampleBlankEnv (exampleRequest 5)))
             = slice0 (shuffled (Some (Finite 12345)) (mathRandom exampleBlankEnv) ?ws) 5"
    by (simp only: k sd d responseItems_def fst_conv response.case)
  moreover have "length (shuffled (Some (Finite 12345)) (mathRandom exampleBlankEnv) ?ws) = 3"
    by (simp add: length_shuffled_seeded)
  ultimately have "length (responseItems (fst (POST_web_recommend asciiOps exampleBlankEnv (exampleRequest 5)))) = 3"
    by (simp add: slice0_def toIntegerOrInfinity_def Let_def)
  with h5 h7 d show ?thesis by blast
qed

subsection \<open>The route's sort is a stable sort by descending score\<close>

lemma insertBy_mset: "mset (insertBy cmp x ys) = add_mset x (mset ys)"
  by (induction ys) simp_all

lemma insertBy_set: "set (insertBy cmp x ys) = insert x (set ys)"
  by (induction ys) auto

lemma arraySort_Cons: "arraySort cmp (x # xs) = insertBy cmp x (arraySort cmp xs)"
  by (simp add: arraySort_def)

lemma arraySort_Nil: "arraySort cmp [] = []"
  by (simp add: arraySort_def)

lemma arraySort_mset: "mset (arraySort cmp xs) = mset xs"
  by (induction xs) (simp_all add: arraySort_Nil arraySort_Cons insertBy_mset)

lemma arraySort_length: "length (arraySort cmp xs) = length xs"
  using arraySort_mset [of cmp xs] by (metis size_mset)

lemma signOfDifference_same: "signOfDifference a a = 0"
  by (cases a) simp_all

lemma signOfDifference_le: "a \<noteq> NaN \<Longrightarrow> b \<noteq> NaN \<Longrightarrow> (signOfDifference a b \<le> 0) = scoreLe a b"
  by (cases a; cases b) simp_all

lemma scoreLe_trans: "scoreLe a b \<Longrightarrow> scoreLe b c \<Longrightarrow> scoreLe a c"
  by (cases a; cases b; cases c) simp_all

lemma scoreLe_total: "a \<noteq> NaN \<Longrightarrow> b \<noteq> NaN \<Longrightarrow> \<not> scoreLe a b \<Longrightarrow> scoreLe b a"
  by (cases a; cases b) simp_all

lemma insertBy_sorted:
  assumes "sorted_wrt (\<lambda>a b. scoreLe (score b) (score a)) ys"
    and "score x \<noteq> NaN"
    and "\<forall>y \<in> set ys. score y \<noteq> NaN"
  shows "sorted_wrt (\<lambda>a b. scoreLe (score b) (score a))
           (insertBy (\<lambda>a b. signOfDifference (score b) (score a)) x ys)"
  using assms
proof (induction ys)
  case Nil
  then show ?case by simp
next
  case (Cons y ys)
  have ny: "score y \<noteq> NaN" using Cons.prems(3) by simp
  show ?case
  proof (cases "signOfDifference (score y) (score x) \<le> 0")
    case True
    then have yx: "scoreLe (score y) (score x)"
      using signOfDifference_le [OF ny Cons.prems(2)] by simp
    have "scoreLe (score z) (score x)" if "z \<in> set ys" for z
    proof -
      have "scoreLe (score z) (score y)" using Cons.prems(1) that by simp
      then show ?thesis using yx by (rule scoreLe_trans)
    qed
    then show ?thesis using True yx Cons.prems(1) by simp
  next
    case False
    then have "\<not> scoreLe (score y) (score x)"
      using signOfDifference_le [OF ny Cons.prems(2)] by simp
    then have xy: "scoreLe (score x) (score y)"
      using scoreLe_total [OF ny Cons.prems(2)] by simp
    have "\<forall>z \<in> set (insertBy (\<lambda>a b. signOfDifference (score b) (score a)) x ys).
            scoreLe (score z) (score y)"
      using Cons.prems(1) xy by (simp add: insertBy_set)
    moreover have "sorted_wrt (\<lambda>a b. scoreLe (score b) (score a))
                     (insertBy (\<lambda>a b. signOfDifference (score b) (score a)) x ys)"
      using Cons.prems by (intro Cons.IH) simp_all
    ultimately show ?thesis using False by simp
  qed
qed

lemma insertBy_stable:
  "filter (\<lambda>e. score e = v) (insertBy (\<lambda>a b. signOfDifference (score b) (score a)) x ys)
   = filter (\<lambda>e. score e = v) (x # ys)"
proof (induction ys)
  case Nil
  then show ?case by simp
next
  case (Cons y ys)
  show ?case
  proof (cases "signOfDifference (score y) (score x) \<le> 0")
    case True
    then show ?thesis by simp
  next
    case False
    then have "score x \<noteq> score y" using signOfDifference_same [of "score y"] by auto
    then show ?thesis using False Cons.IH by auto
  qed
qed

lemma arraySort_sorted:
  "\<forall>y \<in> set xs. score y \<noteq> NaN
   \<Longrightarrow> sorted_wrt (\<lambda>a b. scoreLe (score b) (score a))
         (arraySort (\<lambda>a b. signOfDifference (score b) (score a)) xs)"
proof (induction xs)
  case Nil
  then show ?case by (simp add: arraySort_Nil)
next
  case (Cons x xs)
  have s: "sorted_wrt (\<lambda>a b. scoreLe (score b) (score a))
             (arraySort (\<lambda>a b. signOfDifference (score b) (score a)) xs)"
    using Cons.prems by (intro Cons.IH) simp
  have n: "\<forall>y \<in> set (arraySort (\<lambda>a b. signOfDifference (score b) (score a)) xs). score y \<noteq> NaN"
    using Cons.prems arraySort_mset [of "\<lambda>a b. signOfDifference (score b) (score a)" xs]
    by (metis list.set_intros(2) mset_eq_setD)
  have x: "score x \<noteq> NaN" using Cons.prems by simp
  show ?case
    unfolding arraySort_Cons using s x n by (rule insertBy_sorted)
qed

lemma arraySort_stable:
  "filter (\<lambda>e. score e = v) (arraySort (\<lambda>a b. signOfDifference (score b) (score a)) xs)
   = filter (\<lambda>e. score e = v) xs"
  by (induction xs) (simp_all add: arraySort_Nil arraySort_Cons insertBy_stable)

lemma sliceTo_take: "\<exists>n. sliceTo xs e = take n xs"
proof (cases e)
  case (Finite x)
  then show ?thesis by (auto simp add: sliceTo_def slice0_def Let_def)
next
  case NaN
  then show ?thesis by (auto simp add: sliceTo_def slice0_def Let_def)
next
  case PosInfinity
  have "sliceTo xs e = take (length xs) xs" using PosInfinity by (simp add: sliceTo_def)
  then show ?thesis by (rule exI)
next
  case NegInfinity
  have "sliceTo xs e = take 0 xs" using NegInfinity by (simp add: sliceTo_def)
  then show ?thesis by (rule exI)
qed

subsection \<open>Examples in the unrounded arithmetic\<close>

lemma overflow_small: "\<bar>x\<bar> \<le> 4 \<Longrightarrow> overflow x = Finite x"
proof -
  assume a: "\<bar>x\<bar> \<le> 4"
  define P :: real where "P = 2 ^ 1024"
  have "(2::real) ^ 3 \<le> 2 ^ 1024" by (rule power_increasing) simp_all
  then have "8 \<le> P" by (simp add: P_def)
  then have "\<not> P \<le> x" "\<not> x \<le> - P" using a by linarith+
  then show ?thesis by (simp add: overflow_def P_def)
qed

lemma overflow_large: "2 ^ 1024 \<le> x \<Longrightarrow> overflow x = PosInfinity"
  by (simp add: overflow_def)

lemma sqrt_small: "sqrt (1 / 4503599627370496) = 1 / 67108864"
  by (rule real_sqrt_unique) (simp_all add: power2_eq_square)

lemma sqrt_tiny: "sqrt (1 / 81129638414606681695789005144064) = 1 / 9007199254740992"
  by (rule real_sqrt_unique) (simp_all add: power2_eq_square)

lemma example_finite_scores:
  "score (scoreRow idealOps [Some (Finite smallEntry), Some (Finite 0)]
            (exampleRow i [Some (Finite smallEntry), Some (Finite 0)])) = Finite (1 / 2)"
  "score (scoreRow idealOps [Some (Finite smallEntry), Some (Finite 0)]
            (exampleRow i [Some (Finite 0), Some (Finite smallEntry)])) = Finite 0"
  by (simp_all add: scoreRow_def exampleRow_def cosineSimilarity_def orZero_def EPSILON_def Let_def
      idealOps_def overflow_small smallEntry_def sqrt_small)

lemma overflow_hugeEntry:
  "overflow (2 * hugeEntry) = PosInfinity" "overflow (hugeEntry * hugeEntry) = PosInfinity"
proof -
  have p: "(2::real) * 2 ^ 1023 = 2 ^ 1024" by simp
  have q: "(2::real) ^ 1024 \<le> 2 ^ 1023 * 2 ^ 1023"
  proof -
    have "(2::real) ^ 1024 \<le> 2 ^ (1023 + 1023)" by (rule power_increasing) simp_all
    then show ?thesis by (simp only: power_add)
  qed
  show "overflow (2 * hugeEntry) = PosInfinity"
    unfolding hugeEntry_def by (rule overflow_large) (simp only: p order_refl)
  show "overflow (hugeEntry * hugeEntry) = PosInfinity"
    unfolding hugeEntry_def using q by (rule overflow_large)
qed

lemma example_overflow_scores:
  "score (scoreRow idealOps [Some (Finite 2)] (exampleRow i [Some (Finite (- tinyEntry))]))
     = Finite (- (1 / 2))"
  "score (scoreRow idealOps [Some (Finite 2)] (exampleRow i [Some (Finite hugeEntry)])) = NaN"
  "score (scoreRow idealOps [Some (Finite 2)] (exampleRow i [Some (Finite tinyEntry)]))
     = Finite (1 / 2)"
  by (simp_all add: scoreRow_def exampleRow_def cosineSimilarity_def orZero_def EPSILON_def Let_def
      idealOps_def overflow_small overflow_hugeEntry signedInfinity_def tinyEntry_def sqrt_tiny)

text \<open>
  C5, as the code has it. When no score is \<open>NaN\<close>, the ranker's output is ordered by
  descending score, and entries of equal score keep the relative order they had in the
  input: for every score value, the entries with that score form the same list before and
  after the sort. The output is a rearrangement of the scored input, and what the route
  returns is a prefix of it. This holds for every arithmetic of the scores, that of doubles
  included.
\<close>

theorem ranked_descending_stable:
  assumes "NaN \<notin> set (map (\<lambda>r. score (scoreRow fp targetEmbedding r)) (validRows rows))"
  shows "sorted_wrt (\<lambda>a b. scoreLe (score b) (score a)) (ranked fp targetEmbedding rows)
   \<and> filter (\<lambda>e. score e = v) (ranked fp targetEmbedding rows)
       = filter (\<lambda>e. score e = v) (map (scoreRow fp targetEmbedding) (validRows rows))
   \<and> mset (ranked fp targetEmbedding rows) = mset (map (scoreRow fp targetEmbedding) (validRows rows))
   \<and> (\<exists>n. scored fp targetEmbedding rows tk = take n (ranked fp targetEmbedding rows))"
proof -
  have "\<forall>y \<in> set (map (scoreRow fp targetEmbedding) (validRows rows)). score y \<noteq> NaN"
    using assms by (simp add: notin_image_iff)
  then have "sorted_wrt (\<lambda>a b. scoreLe (score b) (score a)) (ranked fp targetEmbedding rows)"
    unfolding ranked_def by (rule arraySort_sorted)
  then show ?thesis
    by (simp add: ranked_def scored_def arraySort_stable arraySort_mset sliceTo_take)
qed

lemma example_ranked:
  "ranked idealOps [Some (Finite smallEntry), Some (Finite 0)]
     [exampleRow ''b'' [Some (Finite 0), Some (Finite smallEntry)],
      exampleRow ''a'' [Some (Finite smallEntry), Some (Finite 0)],
      exampleRow ''c'' [Some (Finite smallEntry), Some (Finite 0)]]
   = [scoreRow idealOps [Some (Finite smallEntry), Some (Finite 0)]
        (exampleRow ''a'' [Some (Finite smallEntry), Some (Finite 0)]),
      scoreRow idealOps [Some (Finite smallEntry), Some (Finite 0)]
        (exampleRow ''c'' [Some (Finite smallEntry), Some (Finite 0)]),
      scoreRow idealOps [Some (Finite smallEntry), Some (Finite 0)]
        (exampleRow ''b'' [Some (Finite 0), Some (Finite smallEntry)])]"
proof -
  have v: "validRows [exampleRow ''b'' [Some (Finite 0), Some (Finite smallEntry)],
                      exampleRow ''a'' [Some (Finite smallEntry), Some (Finite 0)],
                      exampleRow ''c'' [Some (Finite smallEntry), Some (Finite 0)]]
           = [exampleRow ''b'' [Some (Finite 0), Some (Finite smallEntry)],
              exampleRow ''a'' [Some (Finite smallEntry), Some (Finite 0)],
              exampleRow ''c'' [Some (Finite smallEntry), Some (Finite 0)]]"
    by (simp add: validRows_def exampleRow_def)
  show ?thesis
    unfolding ranked_def v by (simp add: arraySort_def example_finite_scores)
qed

lemma example_no_NaN:
  "NaN \<notin> set (map (\<lambda>r. score (scoreRow idealOps [Some (Finite smallEntry), Some (Finite 0)] r))
              (validRows [exampleRow ''b'' [Some (Finite 0), Some (Finite smallEntry)],
                          exampleRow ''a'' [Some (Finite smallEntry), Some (Finite 0)],
                          exampleRow ''c'' [Some (Finite smallEntry), Some (Finite 0)]]))"
proof -
  have v: "validRows [exampleRow ''b'' [Some (Finite 0), Some (Finite smallEntry)],
                      exampleRow ''a'' [Some (Finite smallEntry), Some (Finite 0)],
                      exampleRow ''c'' [Some (Finite smallEntry), Some (Finite 0)]]
           = [exampleRow ''b'' [Some (Finite 0), Some (Finite smallEntry)],
              exampleRow ''a'' [Some (Finite smallEntry), Some (Finite 0)],
              exampleRow ''c'' [Some (Finite smallEntry), Some (Finite 0)]]"
    by (simp add: validRows_def exampleRow_def)
  show ?thesis
    unfolding v by (simp add: example_finite_scores)
qed

theorem ranked_descending_stable_witness:
  "NaN \<notin> set (map (\<lambda>r. score (scoreRow idealOps [Some (Finite smallEntry), Some (Finite 0)] r))
              (validRows [exampleRow ''b'' [Some (Finite 0), Some (Finite smallEntry)],
                          exampleRow ''a'' [Some (Finite smallEntry), Some (Finite 0)],
                          exampleRow ''c'' [Some (Finite smallEntry), Some (Finite 0)]]))
   \<and> ranked idealOps [Some (Finite smallEntry), Some (Finite 0)]
       [exampleRow ''b'' [Some (Finite 0), Some (Finite smallEntry)],
        exampleRow ''a'' [Some (Finite smallEntry), Some (Finite 0)],
        exampleRow ''c'' [Some (Finite smallEntry), Some (Finite 0)]]
     = [scoreRow idealOps [Some (Finite smallEntry), Some (Finite 0)]
          (exampleRow ''a'' [Some (Finite smallEntry), Some (Finite 0)]),
        scoreRow idealOps [Some (Finite smallEntry), Some (Finite 0)]
          (exampleRow ''c'' [Some (Finite smallEntry), Some (Finite 0)]),
        scoreRow idealOps [Some (Finite smallEntry), Some (Finite 0)]
          (exampleRow ''b'' [Some (Finite 0), Some (Finite smallEntry)])]
   \<and> sorted_wrt (\<lambda>a b. scoreLe (score b) (score a))
        (ranked idealOps [Some (Finite smallEntry), Some (Finite 0)]
           [exampleRow ''b'' [Some (Finite 0), Some (Finite smallEntry)],
            exampleRow ''a'' [Some (Finite smallEntry), Some (Finite 0)],
            exampleRow ''c'' [Some (Finite smallEntry), Some (Finite 0)]])"
  using example_ranked example_no_NaN
    ranked_descending_stable [OF example_no_NaN]
  by blast

text \<open>
  C5 as the claim words it, for every target and every list of candidates, fails: a score
  is \<open>NaN\<close> when the products of the entries overflow. For the target \<open>[2]\<close> and the
  candidates \<open>[-2^-53]\<close>, \<open>[2^1023]\<close>, \<open>[2^-53]\<close> the scores are \<open>-0.5\<close>,
  \<open>Infinity / Infinity = NaN\<close> and \<open>0.5\<close>; the comparator returns \<open>NaN\<close> on the second
  entry, the sort leaves the three entries in place, and the output has a negative score
  before a positive one. (With a \<open>NaN\<close> among the scores no arrangement is descending.)
\<close>

theorem ranked_NaN_score_not_descending:
  "map score
     (ranked idealOps [Some (Finite 2)]
        [exampleRow ''a'' [Some (Finite (- tinyEntry))], exampleRow ''b'' [Some (Finite hugeEntry)],
         exampleRow ''c'' [Some (Finite tinyEntry)]])
   = [Finite (- (1 / 2)), NaN, Finite (1 / 2)]
   \<and> map s_book_id
       (ranked idealOps [Some (Finite 2)]
          [exampleRow ''a'' [Some (Finite (- tinyEntry))], exampleRow ''b'' [Some (Finite hugeEntry)],
           exampleRow ''c'' [Some (Finite tinyEntry)]])
     = [''a'', ''b'', ''c'']
   \<and> \<not> sorted_wrt (\<lambda>a b. scoreLe (score b) (score a))
        (ranked idealOps [Some (Finite 2)]
           [exampleRow ''a'' [Some (Finite (- tinyEntry))], exampleRow ''b'' [Some (Finite hugeEntry)],
            exampleRow ''c'' [Some (Finite tinyEntry)]])"
proof -
  have v: "validRows [exampleRow ''a'' [Some (Finite (- tinyEntry))], exampleRow ''b'' [Some (Finite hugeEntry)],
                      exampleRow ''c'' [Some (Finite tinyEntry)]]
           = [exampleRow ''a'' [Some (Finite (- tinyEntry))], exampleRow ''b'' [Some (Finite hugeEntry)],
              exampleRow ''c'' [Some (Finite tinyEntry)]]"
    by (simp add: validRows_def exampleRow_def)
  have r: "ranked idealOps [Some (Finite 2)]
             [exampleRow ''a'' [Some (Finite (- tinyEntry))], exampleRow ''b'' [Some (Finite hugeEntry)],
              exampleRow ''c'' [Some (Finite tinyEntry)]]
           = [scoreRow idealOps [Some (Finite 2)] (exampleRow ''a'' [Some (Finite (- tinyEntry))]),
              scoreRow idealOps [Some (Finite 2)] (exampleRow ''b'' [Some (Finite hugeEntry)]),
              scoreRow idealOps [Some (Finite 2)] (exampleRow ''c'' [Some (Finite tinyEntry)])]"
    unfolding ranked_def v by (simp add: arraySort_def example_overflow_scores)
  have i: "s_book_id (scoreRow idealOps [Some (Finite 2)] (exampleRow k e)) = k" for k e
    by (simp add: scoreRow_def exampleRow_def)
  show ?thesis
    unfolding r by (simp add: example_overflow_scores i)
qed

subsection \<open>The result count on the two routes\<close>

lemma length_slice0_le:
  assumes "0 \<le> e" "e \<le> 50"
  shows "length (slice0 xs e) \<le> 50"
proof -
  define f where "f = \<lfloor>e\<rfloor>"
  have "f \<le> 50" unfolding f_def using assms(2) by (simp add: floor_le_iff)
  then have n: "nat (min f (int (length xs))) \<le> 50" by arith
  have "0 \<le> f" unfolding f_def using assms(1) by simp
  then have "slice0 xs e = take (nat (min f (int (length xs)))) xs"
    unfolding f_def using assms(1) by (simp add: slice0_def toIntegerOrInfinity_def Let_def)
  then show ?thesis using n by simp
qed

lemma requestedTopK_examples:
  "requestedTopK (Some (Finite 1000)) = 50" "requestedTopK (Some (Finite 0)) = 5"
  "requestedTopK (Some (Finite (- 3))) = 1" "requestedTopK (Some NaN) = 5"
  by (simp_all add: requestedTopK_def)

lemma POST_web_recommend_at_most_50:
  "length (responseItems (fst (POST_web_recommend js env body))) \<le> 50"
proof -
  have k: "0 \<le> requestedTopK (topK body)" "requestedTopK (topK body) \<le> 50"
    using requestedTopK_range [of "topK body"] by simp_all
  show ?thesis
    by (simp add: POST_web_recommend_def responseItems_def Let_def length_slice0_le [OF k]
        split: list.split prod.split option.split sum.split)
qed

lemma slice0_whole: "real (length xs) \<le> e \<Longrightarrow> slice0 xs e = xs"
proof -
  assume a: "real (length xs) \<le> e"
  then have "int (length xs) \<le> \<lfloor>e\<rfloor>" by (simp add: le_floor_iff)
  moreover have "\<not> e < 0" using a by (smt (verit) of_nat_0_le_iff)
  ultimately show ?thesis by (simp add: slice0_def toIntegerOrInfinity_def Let_def)
qed

lemma slice0_zero: "slice0 xs 0 = []"
  by (simp add: slice0_def toIntegerOrInfinity_def)

lemma length_ranked: "length (ranked fp targetEmbedding rows) = length (validRows rows)"
  by (simp add: ranked_def arraySort_length)

lemma example_validRows:
  "validRows (replicate n (exampleRow i [Some (Finite 1)])) = replicate n (exampleRow i [Some (Finite 1)])"
  by (simp add: validRows_def exampleRow_def)

text \<open>
  C1. The recommend route (local ranking) does not clamp \<open>topK\<close>: with 51 other books that
  have an embedding, a request for 1000 is answered with 51 entries, and a request for 0 with
  none. (The web-recommend route does clamp: see \<open>requestedTopK_range\<close> and
  \<open>POST_web_recommend_at_most_50\<close>.)
\<close>

theorem recommend_route_does_not_clamp_topK:
  "length (responseItems (POST_recommend fp (exampleRankEnv 51) \<lparr>bookId = Some ''b1'', topK = Some (Finite 1000)\<rparr>)) = 51
   \<and> POST_recommend fp (exampleRankEnv 51) \<lparr>bookId = Some ''b1'', topK = Some (Finite 0)\<rparr> = Ok200 []"
proof -
  let ?rows = "replicate 51 (exampleRow ''b2'' [Some (Finite 1)])"
  have len: "length (ranked fp [Some (Finite 1)] ?rows) = 51"
    by (simp add: length_ranked example_validRows)
  then have "real (length (ranked fp [Some (Finite 1)] ?rows)) \<le> 1000" by simp
  then have "scored fp [Some (Finite 1)] ?rows (Some (Finite 1000)) = ranked fp [Some (Finite 1)] ?rows"
    by (simp add: scored_def sliceTo_def slice0_whole)
  moreover have "ranked fp [Some (Finite 1)] ?rows \<noteq> []" using len by auto
  ultimately have a: "length (responseItems (POST_recommend fp (exampleRankEnv 51)
                        \<lparr>bookId = Some ''b1'', topK = Some (Finite 1000)\<rparr>)) = 51"
    using len
    by (simp add: POST_recommend_def exampleRankEnv_def truthy_def exampleRow_def [of "''b1''"]
        responseItems_def Let_def)
  have "scored fp [Some (Finite 1)] ?rows (Some (Finite 0)) = []"
    by (simp add: scored_def sliceTo_def slice0_zero)
  then have b: "POST_recommend fp (exampleRankEnv 51) \<lparr>bookId = Some ''b1'', topK = Some (Finite 0)\<rparr> = Ok200 []"
    by (simp add: POST_recommend_def exampleRankEnv_def truthy_def exampleRow_def [of "''b1''"] Let_def)
  from a b show ?thesis by (rule conjI)
qed

subsection \<open>Failures of the external search\<close>

lemma queryOpenLibrary_degrades:
  "ol q limit = HttpNotOk \<or> ol q limit = BodyNotJson \<or> ol q limit = JsonBody None
   \<Longrightarrow> queryOpenLibrary js ol lt q limit = Inr []"
  by (auto simp add: queryOpenLibrary_def)

lemma queryOpenLibrary_rejected:
  "ol q limit = FetchRejected e \<Longrightarrow> queryOpenLibrary js ol lt q limit = Inl e"
  by (simp add: queryOpenLibrary_def)

lemma POST_web_recommend_primary_rejected:
  assumes "truthy (bookId body) = bid # rest"
    and "bookById env bid = (None, Some b)"
    and "queryText js b \<noteq> []"
    and "openLibrary env (queryText js b) (fetchLimit (requestedTopK (topK body))) = FetchRejected e"
  shows "POST_web_recommend js env body
         = (Status500 e, [(queryText js b, fetchLimit (requestedTopK (topK body)))])"
  using assms
  by (simp add: POST_web_recommend_def collectCandidates_def Let_def queryOpenLibrary_rejected)

text \<open>
  C2. A rejected \<open>fetch\<close> is not absorbed: when the network fails for the primary search the
  route answers with status 500, and when it fails for the title-only search the route
  answers with status 500 although the primary search had found a candidate. (A status that
  is not ok and a body that is not JSON do give the empty list: \<open>queryOpenLibrary_degrades\<close>.)
  The strings of the example are ASCII, on which \<open>asciiOps\<close> computes what \<open>toLowerCase\<close>
  and \<open>trim\<close> compute; \<open>POST_web_recommend_primary_rejected\<close> is the general statement.
\<close>

theorem rejected_fetch_answers_500:
  "POST_web_recommend asciiOps exampleOffline (exampleRequest 5)
     = (Status500 ''TypeError: fetch failed'', [(''Dune Frank'', 30)])
   \<and> POST_web_recommend asciiOps exampleWideningOffline (exampleRequest 5)
     = (Status500 ''TypeError: fetch failed'', [(''Dune Frank'', 30), (''Dune'', 60)])"
proof -
  have k: "requestedTopK (topK (exampleRequest 5)) = 5"
    by (rule example_requestedTopK)
  have fl: "fetchLimit 5 = 30" "wideningLimit 5 = 60"
    by (simp_all add: fetchLimit_def wideningLimit_def)
  have h1: "truthy (bookId (exampleRequest 5)) = ''b1'' # []"
    by (simp add: exampleRequest_def truthy_def)
  have h3: "queryText asciiOps exampleBook \<noteq> []"
    by (simp add: example_queryText)
  have h4: "truthy (b_title exampleBook) = ''Dune'' # []"
    by (simp add: exampleBook_def truthy_def)
  have a2: "bookById exampleOffline ''b1'' = (None, Some exampleBook)"
    by (simp add: exampleOffline_def exampleEnv_def)
  have a4: "openLibrary exampleOffline (queryText asciiOps exampleBook)
              (fetchLimit (requestedTopK (topK (exampleRequest 5))))
            = FetchRejected ''TypeError: fetch failed''"
    by (simp add: exampleOffline_def)
  have a: "POST_web_recommend asciiOps exampleOffline (exampleRequest 5)
           = (Status500 ''TypeError: fetch failed'', [(''Dune Frank'', 30)])"
    using POST_web_recommend_primary_rejected [OF h1 a2 h3 a4]
    by (simp only: k fl example_queryText)
  have b2: "bookById exampleWideningOffline ''b1'' = (None, Some exampleBook)"
    by (simp add: exampleWideningOffline_def exampleEnv_def)
  have lt: "localTitles asciiOps (allBookTitles exampleWideningOffline) = {''dune''}"
    using example_localTitles by (simp add: exampleWideningOffline_def exampleEnv_def)
  have b5: "queryOpenLibrary asciiOps (openLibrary exampleWideningOffline) {''dune''} ''Dune Frank'' 30
            = Inr [exampleCandidate ''Dune Messiah'']"
    by (simp add: queryOpenLibrary_def exampleWideningOffline_def exampleDoc_def
        exampleCandidate_def mapDoc_def normTitle_def asciiTrim_def asciiToLowerCase_def asciiToLowerChar_def
        isAsciiWhiteSpace_def asciiOps_def)
  have b7: "queryOpenLibrary asciiOps (openLibrary exampleWideningOffline) {''dune''} ''Dune'' 60
            = Inl ''TypeError: fetch failed''"
    by (simp add: queryOpenLibrary_def exampleWideningOffline_def)
  have "collectCandidates asciiOps (openLibrary exampleWideningOffline) {''dune''} exampleBook 5
        = ([(''Dune Frank'', 30), (''Dune'', 60)], Inl ''TypeError: fetch failed'')"
    by (simp add: collectCandidates_def Let_def example_queryText fl b5 b7 h4)
  then have b: "POST_web_recommend asciiOps exampleWideningOffline (exampleRequest 5)
           = (Status500 ''TypeError: fetch failed'', [(''Dune Frank'', 30), (''Dune'', 60)])"
    using h1 b2 h3 by (simp add: POST_web_recommend_def Let_def k lt)
  from a b show ?thesis by (rule conjI)
qed

subsection \<open>The client's three passes\<close>

lemma usable_SomeD: "usable js c = Some (r, t) \<Longrightarrow> c = Some r \<and> t \<noteq> [] \<and> t = recKey js r"
  by (auto simp add: usable_def recKey_def truthy_def split: option.splits list.splits if_splits)

lemma poolKeys_Nil: "poolKeys js [] = {}"
  by (simp add: poolKeys_def List.map_filter_simps)

lemma poolKeys_Cons_None: "usable js c = None \<Longrightarrow> poolKeys js (c # rest) = poolKeys js rest"
  by (simp add: poolKeys_def List.map_filter_simps)

lemma poolKeys_Cons_Some: "usable js c = Some (r, t) \<Longrightarrow> poolKeys js (c # rest) = insert t (poolKeys js rest)"
  by (simp add: poolKeys_def List.map_filter_simps)

lemma finite_poolKeys: "finite (poolKeys js pool)"
  by (simp add: poolKeys_def)

lemma strictPass_all_excluded:
  "poolKeys js pool \<subseteq> cur \<Longrightarrow> strictPass js cur pool chosen seen = (chosen, seen)"
proof (induction pool)
  case Nil
  then show ?case by simp
next
  case (Cons c rest)
  show ?case
  proof (cases "usable js c")
    case None
    then show ?thesis using Cons by (simp add: poolKeys_Cons_None)
  next
    case (Some p)
    obtain r t where p: "p = (r, t)" by (cases p)
    then have "t \<in> cur" "poolKeys js rest \<subseteq> cur"
      using Cons.prems Some by (simp_all add: poolKeys_Cons_Some)
    then show ?thesis using Some p Cons.IH by simp
  qed
qed

lemma relaxedPass_length:
  "length chosen < MAX_WEB_RECS
   \<Longrightarrow> length (fst (relaxedPass js pool chosen seen))
       = min MAX_WEB_RECS (length chosen + card (poolKeys js pool - seen))"
proof (induction pool arbitrary: chosen seen)
  case Nil
  then show ?case by (simp add: poolKeys_Nil)
next
  case (Cons c rest)
  show ?case
  proof (cases "usable js c")
    case None
    then show ?thesis using Cons by (simp add: poolKeys_Cons_None)
  next
    case (Some p)
    obtain r t where p: "p = (r, t)" by (cases p)
    have keys: "poolKeys js (c # rest) = insert t (poolKeys js rest)"
      using Some p by (simp add: poolKeys_Cons_Some)
    show ?thesis
    proof (cases "t \<in> seen")
      case True
      then have "poolKeys js (c # rest) - seen = poolKeys js rest - seen"
        using keys by auto
      then show ?thesis using True Some p Cons by simp
    next
      case False
      have split: "poolKeys js (c # rest) - seen = insert t (poolKeys js rest - insert t seen)"
        using keys False by auto
      have fin: "finite (poolKeys js rest - insert t seen)"
        using finite_poolKeys by simp
      have card: "card (poolKeys js (c # rest) - seen) = Suc (card (poolKeys js rest - insert t seen))"
        unfolding split using fin by simp
      show ?thesis
      proof (cases "MAX_WEB_RECS \<le> length (chosen @ [r])")
        case True
        then have "length (fst (relaxedPass js (c # rest) chosen seen)) = Suc (length chosen)"
          using Some p False by simp
        moreover have "Suc (length chosen) = MAX_WEB_RECS"
          using True Cons.prems by simp
        ultimately show ?thesis using card by simp
      next
        case less: False
        then have "length (chosen @ [r]) < MAX_WEB_RECS" by simp
        then have "length (fst (relaxedPass js rest (chosen @ [r]) (insert t seen)))
                   = min MAX_WEB_RECS (length (chosen @ [r]) + card (poolKeys js rest - insert t seen))"
          by (rule Cons.IH)
        moreover have "relaxedPass js (c # rest) chosen seen
                       = relaxedPass js rest (chosen @ [r]) (insert t seen)"
          using Some p False less by simp
        ultimately show ?thesis using card by simp
      qed
    qed
  qed
qed

lemma relaxedPass_subset:
  "Some ` set (fst (relaxedPass js pool chosen seen)) \<subseteq> Some ` set chosen \<union> set pool"
proof (induction pool arbitrary: chosen seen)
  case Nil
  then show ?case by simp
next
  case (Cons c rest)
  show ?case
  proof (cases "usable js c")
    case None
    then show ?thesis using Cons.IH [of chosen seen] by auto
  next
    case (Some p)
    obtain r t where p: "p = (r, t)" by (cases p)
    then have c: "c = Some r" using Some usable_SomeD by blast
    show ?thesis
      using Some p c Cons.IH [of chosen seen] Cons.IH [of "chosen @ [r]" "insert t seen"]
      by auto
  qed
qed

lemma relaxedPass_distinct:
  "distinct (map (recKey js) chosen) \<Longrightarrow> recKey js ` set chosen \<subseteq> seen
   \<Longrightarrow> distinct (map (recKey js) (fst (relaxedPass js pool chosen seen)))"
proof (induction pool arbitrary: chosen seen)
  case Nil
  then show ?case by simp
next
  case (Cons c rest)
  show ?case
  proof (cases "usable js c")
    case None
    then show ?thesis using Cons by simp
  next
    case (Some p)
    obtain r t where p: "p = (r, t)" by (cases p)
    then have t: "t = recKey js r" using Some usable_SomeD by blast
    show ?thesis
    proof (cases "t \<in> seen")
      case True
      then show ?thesis using Some p Cons by simp
    next
      case False
      then have d: "distinct (map (recKey js) (chosen @ [r]))"
        using Cons.prems t by auto
      have s: "recKey js ` set (chosen @ [r]) \<subseteq> insert t seen"
        using Cons.prems t by auto
      have "distinct (map (recKey js) (fst (relaxedPass js rest (chosen @ [r]) (insert t seen))))"
        using d s by (rule Cons.IH)
      then show ?thesis using Some p False d by simp
    qed
  qed
qed


lemma chooseRecs_relaxed:
  assumes "poolKeys js pool \<subseteq> cur" "poolKeys js pool \<noteq> {}"
  shows "chooseRecs js cur pool rs = fst (relaxedPass js pool [] {})"
proof -
  have s: "strictPass js cur pool [] {} = ([], {})"
    using assms(1) by (rule strictPass_all_excluded)
  have "0 < card (poolKeys js pool)"
    using assms(2) finite_poolKeys by (simp add: card_gt_0_iff)
  moreover have len: "length (fst (relaxedPass js pool [] {})) = min MAX_WEB_RECS (card (poolKeys js pool))"
    using relaxedPass_length [of "[]" js pool "{}"] by (simp add: MAX_WEB_RECS_def)
  ultimately have ne: "fst (relaxedPass js pool [] {}) \<noteq> []"
    by (auto simp add: MAX_WEB_RECS_def)
  have "length (fst (relaxedPass js pool [] {})) \<le> MAX_WEB_RECS"
    using len by simp
  then show ?thesis
    using ne by (simp add: chooseRecs_def s rotateFallback_def MAX_WEB_RECS_def)
qed

text \<open>
  C3, as the code has it. When every non-empty normalized title of the pool is in the
  exclusion set, the strict pass chooses nothing, and the relaxed pass, which does not look
  at the exclusion set, chooses \<open>min(3, number of distinct non-empty normalized titles of
  the pool)\<close> candidates of the pool with pairwise different normalized titles; when the
  pool has such a title at all, these are the result. The bound is the constant
  \<open>MAX_WEB_RECS = 3\<close>, not \<open>topK\<close>. This holds whatever \<open>toLowerCase\<close> and \<open>trim\<close>
  compute.
\<close>

theorem excluded_pool_relaxed_pass:
  assumes "poolKeys js pool \<subseteq> cur"
  shows "strictPass js cur pool [] {} = ([], {})
         \<and> length (fst (relaxedPass js pool [] {})) = min 3 (card (poolKeys js pool))
         \<and> Some ` set (fst (relaxedPass js pool [] {})) \<subseteq> set pool
         \<and> distinct (map (recKey js) (fst (relaxedPass js pool [] {})))
         \<and> (poolKeys js pool \<noteq> {} \<longrightarrow> chooseRecs js cur pool rs = fst (relaxedPass js pool [] {}))"
proof -
  have a: "strictPass js cur pool [] {} = ([], {})"
    using assms by (rule strictPass_all_excluded)
  have b: "length (fst (relaxedPass js pool [] {})) = min 3 (card (poolKeys js pool))"
    using relaxedPass_length [of "[]" js pool "{}"] by (simp add: MAX_WEB_RECS_def)
  have c: "Some ` set (fst (relaxedPass js pool [] {})) \<subseteq> set pool"
    using relaxedPass_subset [of js pool "[]" "{}"] by simp
  have d: "distinct (map (recKey js) (fst (relaxedPass js pool [] {})))"
    by (rule relaxedPass_distinct) simp_all
  show ?thesis
    using a b c d chooseRecs_relaxed [OF assms] by blast
qed

lemma example_shuffle_pair: "fst (shuffle [x, y] (\<lambda>_. 0) 0) = [Some y, Some x]"
  by (simp add: shuffle_def fromList_def mathRandomAt_def aget_def aset_def Let_def)

lemma example_usable:
  "usable asciiOps (Some (mapItem (exampleItem ''Dune''))) = Some (mapItem (exampleItem ''Dune''), ''dune'')"
  "usable asciiOps (Some (mapItem (exampleItem ''Emma''))) = Some (mapItem (exampleItem ''Emma''), ''emma'')"
  by (simp_all add: usable_def mapItem_def exampleItem_def truthy_def normTitle_def asciiTrim_def
      asciiToLowerCase_def asciiToLowerChar_def isAsciiWhiteSpace_def asciiOps_def)

lemma example_poolKeys:
  "poolKeys asciiOps [Some (mapItem (exampleItem ''Emma'')), Some (mapItem (exampleItem ''Dune''))]
   = {''emma'', ''dune''}"
  by (simp add: poolKeys_Cons_Some [OF example_usable(1)] poolKeys_Cons_Some [OF example_usable(2)]
      poolKeys_Nil)

lemma example_relaxed:
  "fst (relaxedPass asciiOps [Some (mapItem (exampleItem ''Emma'')), Some (mapItem (exampleItem ''Dune''))] [] {})
   = [mapItem (exampleItem ''Emma''), mapItem (exampleItem ''Dune'')]"
  by (simp add: example_usable MAX_WEB_RECS_def)

lemma example_fetch:
  "recs (fetchWebRecommendations asciiOps exampleClient exampleProps
           (exampleState (Some [mapItem (exampleItem ''Dune''), mapItem (exampleItem ''Emma'')]))
           (Some {''dune'', ''emma''}) None)
   = Some [mapItem (exampleItem ''Emma''), mapItem (exampleItem ''Dune'')]"
proof -
  let ?pool = "[Some (mapItem (exampleItem ''Emma'')), Some (mapItem (exampleItem ''Dune''))]"
  let ?shown = "Some [mapItem (exampleItem ''Dune''), mapItem (exampleItem ''Emma'')]"
  have cur: "currentTitles asciiOps (Some {''dune'', ''emma''}) ?shown = {''dune'', ''emma''}"
    by (simp add: currentTitles_def)
  have sub: "poolKeys asciiOps ?pool \<subseteq> {''dune'', ''emma''}"
    by (simp add: example_poolKeys)
  have ne: "poolKeys asciiOps ?pool \<noteq> {}"
    by (simp add: example_poolKeys)
  have "chooseRecs asciiOps {''dune'', ''emma''} ?pool ?shown = fst (relaxedPass asciiOps ?pool [] {})"
    using sub ne by (rule chooseRecs_relaxed)
  then have ch: "chooseRecs asciiOps {''dune'', ''emma''} ?pool ?shown
                 = [mapItem (exampleItem ''Emma''), mapItem (exampleItem ''Dune'')]"
    by (simp only: example_relaxed)
  show ?thesis
    by (simp add: fetchWebRecommendations_def exampleClient_def exampleProps_def exampleState_def
        Let_def example_shuffle_pair cur ch)
qed

text \<open>
  The bound of C3 as the claim words it, \<open>topK\<close>, fails: a component with \<open>topK = 1\<close>
  whose pool of two titles is excluded as a whole ends with two recommendations.
\<close>

theorem relaxed_pass_not_bounded_by_topK:
  "poolKeys asciiOps (fst (shuffle (map mapItem [exampleItem ''Dune'', exampleItem ''Emma''])
                    (clientRandom exampleClient) 0))
     \<subseteq> {''dune'', ''emma''}
   \<and> recs (fetchWebRecommendations asciiOps exampleClient exampleProps
             (exampleState (Some [mapItem (exampleItem ''Dune''), mapItem (exampleItem ''Emma'')]))
             (Some {''dune'', ''emma''}) None)
       = Some [mapItem (exampleItem ''Emma''), mapItem (exampleItem ''Dune'')]
   \<and> p_topK exampleProps = Some 1
   \<and> \<not> real (length [mapItem (exampleItem ''Emma''), mapItem (exampleItem ''Dune'')]) \<le> 1"
proof -
  have "clientRandom exampleClient = (\<lambda>_. 0)" by (simp add: exampleClient_def)
  then have "poolKeys asciiOps (fst (shuffle (map mapItem [exampleItem ''Dune'', exampleItem ''Emma''])
                    (clientRandom exampleClient) 0)) \<subseteq> {''dune'', ''emma''}"
    by (simp add: example_shuffle_pair example_poolKeys)
  moreover have "p_topK exampleProps = Some 1" by (simp add: exampleProps_def)
  ultimately show ?thesis using example_fetch by simp
qed

theorem excluded_pool_relaxed_pass_witness:
  "poolKeys asciiOps [Some (mapItem (exampleItem ''Emma'')), Some (mapItem (exampleItem ''Dune''))]
     \<subseteq> {''dune'', ''emma''}
   \<and> strictPass asciiOps {''dune'', ''emma''}
        [Some (mapItem (exampleItem ''Emma'')), Some (mapItem (exampleItem ''Dune''))] [] {} = ([], {})
   \<and> chooseRecs asciiOps {''dune'', ''emma''}
        [Some (mapItem (exampleItem ''Emma'')), Some (mapItem (exampleItem ''Dune''))] None
       = [mapItem (exampleItem ''Emma''), mapItem (exampleItem ''Dune'')]"
proof -
  let ?pool = "[Some (mapItem (exampleItem ''Emma'')), Some (mapItem (exampleItem ''Dune''))]"
  have sub: "poolKeys asciiOps ?pool \<subseteq> {''dune'', ''emma''}"
    by (simp add: example_poolKeys)
  have ne: "poolKeys asciiOps ?pool \<noteq> {}"
    by (simp add: example_poolKeys)
  from excluded_pool_relaxed_pass [OF sub, of None] ne
  have "strictPass asciiOps {''dune'', ''emma''} ?pool [] {} = ([], {})"
    and "chooseRecs asciiOps {''dune'', ''emma''} ?pool None = fst (relaxedPass asciiOps ?pool [] {})"
    by blast+
  then show ?thesis using sub by (simp only: example_relaxed simp_thms)
qed


lemma fetchWebRecommendations_ok:
  assumes "webRecommendApi env (p_bookId props)
             (min (max 12 ((case p_topK props of None \<Rightarrow> 5 | Some v \<Rightarrow> v) * 6)) 50) sd
           = ApiResponse True err list"
  shows "recs (fetchWebRecommendations js env props st excludeTitles sd)
         = Some (chooseRecs js (currentTitles js excludeTitles (recs st))
                   (fst (shuffle (map mapItem (case list of None \<Rightarrow> [] | Some xs \<Rightarrow> xs))
                           (clientRandom env) 0))
                   (recs st))"
  using assms by (simp add: fetchWebRecommendations_def Let_def)

lemma chooseRecs_rotates:
  assumes "fst (strictPass js cur pool [] {}) = []"
    and "fst (relaxedPass js pool (fst (strictPass js cur pool [] {})) (snd (strictPass js cur pool [] {}))) = []"
  shows "chooseRecs js cur pool (Some (first # rest)) = take MAX_WEB_RECS (rest @ [first])"
proof -
  obtain chosen1 seen1 where s: "strictPass js cur pool [] {} = (chosen1, seen1)"
    by (cases "strictPass js cur pool [] {}")
  then have c1: "chosen1 = []" using assms(1) by simp
  have r: "fst (relaxedPass js pool [] seen1) = []" using assms(2) s c1 by simp
  define X where "X = rest @ [first]"
  have "rotateFallback [] (Some (first # rest)) = take MAX_WEB_RECS X"
    by (simp add: rotateFallback_def X_def)
  then have "chooseRecs js cur pool (Some (first # rest)) = take MAX_WEB_RECS (take MAX_WEB_RECS X)"
    by (simp add: chooseRecs_def s c1 r MAX_WEB_RECS_def)
  then have "chooseRecs js cur pool (Some (first # rest)) = take MAX_WEB_RECS X"
    by (simp only: take_take min.idem)
  then show ?thesis by (simp only: X_def)
qed

text \<open>
  C9. When the strict and the relaxed pass both choose nothing and the component holds a
  non-empty list of earlier recommendations, the new recommendations are the first
  \<open>MAX_WEB_RECS\<close> entries of that list rotated by one (its first element moved to the end),
  and they are not empty. This is the state the component is left in whenever the route
  answered.
\<close>

theorem rotate_fallback_reuses_previous:
  assumes "webRecommendApi env (p_bookId props)
             (min (max 12 ((case p_topK props of None \<Rightarrow> 5 | Some v \<Rightarrow> v) * 6)) 50) sd
           = ApiResponse True err list"
    and "pool = fst (shuffle (map mapItem (case list of None \<Rightarrow> [] | Some xs \<Rightarrow> xs))
                       (clientRandom env) 0)"
    and "cur = currentTitles js excludeTitles (recs st)"
    and "fst (strictPass js cur pool [] {}) = []"
    and "fst (relaxedPass js pool (fst (strictPass js cur pool [] {})) (snd (strictPass js cur pool [] {}))) = []"
    and "recs st = Some (first # rest)"
  shows "recs (fetchWebRecommendations js env props st excludeTitles sd)
           = Some (take MAX_WEB_RECS (rest @ [first]))
         \<and> take MAX_WEB_RECS (rest @ [first]) \<noteq> []
         \<and> length (take MAX_WEB_RECS (rest @ [first])) = min 3 (length (first # rest))"
proof -
  have "recs (fetchWebRecommendations js env props st excludeTitles sd)
        = Some (chooseRecs js cur pool (Some (first # rest)))"
    using fetchWebRecommendations_ok [OF assms(1), of js st excludeTitles] assms(2,3,6) by simp
  then have "recs (fetchWebRecommendations js env props st excludeTitles sd)
        = Some (take MAX_WEB_RECS (rest @ [first]))"
    using chooseRecs_rotates [OF assms(4,5)] by simp
  moreover have "take MAX_WEB_RECS (rest @ [first]) \<noteq> []"
    by (simp add: MAX_WEB_RECS_def)
  moreover have "length (take MAX_WEB_RECS (rest @ [first])) = min 3 (length (first # rest))"
    by (simp add: MAX_WEB_RECS_def)
  ultimately show ?thesis by blast
qed


theorem rotate_fallback_reuses_previous_witness:
  "recs (fetchWebRecommendations asciiOps exampleEmptyClient exampleProps
           (exampleState (Some [mapItem (exampleItem ''Dune''), mapItem (exampleItem ''Emma'')]))
           None None)
   = Some [mapItem (exampleItem ''Emma''), mapItem (exampleItem ''Dune'')]"
proof -
  let ?st = "exampleState (Some [mapItem (exampleItem ''Dune''), mapItem (exampleItem ''Emma'')])"
  have h1: "webRecommendApi exampleEmptyClient (p_bookId exampleProps)
              (min (max 12 ((case p_topK exampleProps of None \<Rightarrow> 5 | Some v \<Rightarrow> v) * 6)) 50) None
            = ApiResponse True None (Some [])"
    by (simp add: exampleEmptyClient_def)
  have h2: "[] = fst (shuffle (map mapItem (case Some [] of None \<Rightarrow> [] | Some xs \<Rightarrow> xs))
                        (clientRandom exampleEmptyClient) 0)"
    by (simp add: shuffle_def fromList_def)
  have h3: "currentTitles asciiOps None (recs ?st) = currentTitles asciiOps None (recs ?st)"
    by (rule refl)
  have h4: "fst (strictPass asciiOps (currentTitles asciiOps None (recs ?st)) [] [] {}) = []"
    by simp
  have h5: "fst (relaxedPass asciiOps [] (fst (strictPass asciiOps (currentTitles asciiOps None (recs ?st)) [] [] {}))
                   (snd (strictPass asciiOps (currentTitles asciiOps None (recs ?st)) [] [] {}))) = []"
    by simp
  have h6: "recs ?st = Some (mapItem (exampleItem ''Dune'') # [mapItem (exampleItem ''Emma'')])"
    by (simp add: exampleState_def)
  from rotate_fallback_reuses_previous [OF h1 h2 h3 h4 h5 h6]
  have "recs (fetchWebRecommendations asciiOps exampleEmptyClient exampleProps ?st None None)
        = Some (take MAX_WEB_RECS ([mapItem (exampleItem ''Emma'')] @ [mapItem (exampleItem ''Dune'')]))"
    by (rule conjunct1)
  then show ?thesis by (simp add: MAX_WEB_RECS_def)
qed

end
